(* ===== verification/Prelude.thy ===== *)
theory Prelude
  imports Main "HOL-Library.AList"
begin

text \<open>
  Shared vocabulary of the development: the JavaScript built-ins that the MQTT service and
  its controllers rely on, each written with the semantics of ECMAScript rather than of HOL.
  \<^item> \<open>js_split\<close> is \<open>String.prototype.split\<close> with a one-character separator: it never
    returns an empty array, and empty pieces are kept (\<open>"a//b"\<close> gives three pieces).
  \<^item> \<open>js_join\<close> is \<open>Array.prototype.join\<close>; \<open>js_split\<close> and \<open>js_join\<close> are inverse.
  \<^item> \<open>js_at\<close> is array indexing, \<open>None\<close> standing for \<open>undefined\<close> out of range.
  \<^item> \<open>js_set_add\<close> and \<open>js_set_delete\<close> are \<open>Set.prototype.add\<close> and \<open>delete\<close> on a
    list that keeps the insertion order, which \<open>Array.from(set)\<close> reveals.
  \<^item> \<open>js_startsWith\<close>, \<open>js_parseInt\<close> and \<open>js_or_int\<close> (the idiom \<open>parseInt(x) || d\<close>).
  The named collection \<open>js_simps\<close> gathers the evaluation rules the components share.
\<close>

named_theorems js_simps "evaluation rules of the JavaScript built-ins"

type_synonym topic = string

text \<open>The process environment \<open>process.env\<close>: an unset variable is \<open>None\<close>.\<close>

type_synonym env = "string \<Rightarrow> string option"

datatype js_error = TypeError string | Error string

subsection \<open>String.prototype.split and Array.prototype.join\<close>

fun js_split :: "char \<Rightarrow> string \<Rightarrow> string list" where
  "js_split c [] = [[]]"
| "js_split c (x # xs) =
     (let r = js_split c xs in if x = c then [] # r else (x # hd r) # tl r)"

fun js_join :: "char \<Rightarrow> string list \<Rightarrow> string" where
  "js_join c [] = []"
| "js_join c [w] = w"
| "js_join c (w # v # ws) = w @ c # js_join c (v # ws)"

definition js_at :: "'a list \<Rightarrow> nat \<Rightarrow> 'a option" where
  "js_at xs i = (if i < length xs then Some (xs ! i) else None)"

definition js_startsWith :: "string \<Rightarrow> string \<Rightarrow> bool" where
  "js_startsWith s p = (take (length p) s = p)"

lemma js_split_not_Nil [simp]: "js_split c s \<noteq> []"
  by (induction s) (simp_all add: Let_def)

lemma length_js_split_pos [simp]: "Suc 0 \<le> length (js_split c s)"
  using js_split_not_Nil [of c s] by (cases "js_split c s") auto

lemma js_split_Cons_sep [simp, js_simps]: "js_split c (c # xs) = [] # js_split c xs"
  by simp

lemma js_split_Cons_other [simp, js_simps]:
  "x \<noteq> c \<Longrightarrow> js_split c (x # xs) = (x # hd (js_split c xs)) # tl (js_split c xs)"
  by (simp add: Let_def)

declare js_split.simps(2) [simp del]

lemma js_split_no_sep: "c \<notin> set s \<Longrightarrow> js_split c s = [s]"
  by (induction s) auto

lemma js_split_append_sep [js_simps]:
  "js_split c (a @ c # b) = js_split c a @ js_split c b"
proof (induction a)
  case Nil
  then show ?case by simp
next
  case (Cons x a)
  show ?case
  proof (cases "x = c")
    case True
    with Cons show ?thesis by simp
  next
    case False
    obtain w ws where "js_split c a = w # ws"
      by (cases "js_split c a") auto
    with Cons False show ?thesis by simp
  qed
qed

lemma hd_js_split: "hd (js_split c s) = takeWhile (\<lambda>x. x \<noteq> c) s"
proof (induction s)
  case (Cons x s)
  then show ?case by (cases "x = c") simp_all
qed simp

lemma js_at_0_js_split [simp]: "js_at (js_split c s) 0 = Some (takeWhile (\<lambda>x. x \<noteq> c) s)"
  using js_split_not_Nil [of c s] by (simp add: js_at_def hd_js_split [symmetric] hd_conv_nth)

lemma js_join_Cons_Cons: "ws \<noteq> [] \<Longrightarrow> js_join c (w # ws) = w @ c # js_join c ws"
  by (cases ws) auto

lemma js_join_split [simp]: "js_join c (js_split c s) = s"
proof (induction s)
  case Nil
  then show ?case by simp
next
  case (Cons x s)
  obtain w ws where r: "js_split c s = w # ws"
    by (cases "js_split c s") auto
  show ?case
  proof (cases "x = c")
    case True
    with Cons r show ?thesis by (simp add: js_join_Cons_Cons)
  next
    case False
    with Cons r show ?thesis by (cases ws) auto
  qed
qed

lemma js_split_join:
  "ws \<noteq> [] \<Longrightarrow> \<forall>w \<in> set ws. c \<notin> set w \<Longrightarrow> js_split c (js_join c ws) = ws"
proof (induction c ws rule: js_join.induct)
  case (3 c w v ws)
  then show ?case by (simp add: js_split_append_sep js_split_no_sep)
qed (auto simp: js_split_no_sep)

lemma length_js_split_append_sep: "length (js_split c (a @ c # b)) = length (js_split c a) + length (js_split c b)"
  by (simp add: js_split_append_sep)

lemma js_at_append_left [js_simps]: "i < length xs \<Longrightarrow> js_at (xs @ ys) i = Some (xs ! i)"
  by (simp add: js_at_def nth_append)

lemma js_at_Cons_0 [simp, js_simps]: "js_at (x # xs) 0 = Some x"
  by (simp add: js_at_def)

lemma js_at_Cons_Suc [simp, js_simps]: "js_at (x # xs) (Suc i) = js_at xs i"
  by (simp add: js_at_def)

lemma js_at_Nil [simp, js_simps]: "js_at [] i = None"
  by (simp add: js_at_def)

lemma js_startsWith_append [simp, js_simps]: "js_startsWith (p @ s) p"
  by (simp add: js_startsWith_def)

lemma js_startsWith_shape: "js_startsWith s p \<Longrightarrow> s = p @ drop (length p) s"
  unfolding js_startsWith_def by (metis append_take_drop_id)

subsection \<open>Set.prototype.add and Set.prototype.delete\<close>

definition js_set_add :: "'a list \<Rightarrow> 'a \<Rightarrow> 'a list" where
  "js_set_add xs x = (if x \<in> set xs then xs else xs @ [x])"

definition js_set_delete :: "'a list \<Rightarrow> 'a \<Rightarrow> 'a list" where
  "js_set_delete xs x = removeAll x xs"

lemma set_js_set_add [simp, js_simps]: "set (js_set_add xs x) = insert x (set xs)"
  by (auto simp: js_set_add_def)

lemma set_js_set_delete [simp, js_simps]: "set (js_set_delete xs x) = set xs - {x}"
  by (simp add: js_set_delete_def)

lemma distinct_js_set_add [simp]: "distinct xs \<Longrightarrow> distinct (js_set_add xs x)"
  by (simp add: js_set_add_def)

lemma distinct_js_set_delete [simp]: "distinct xs \<Longrightarrow> distinct (js_set_delete xs x)"
  by (simp add: js_set_delete_def distinct_removeAll)

lemma js_set_add_present: "x \<in> set xs \<Longrightarrow> js_set_add xs x = xs"
  by (simp add: js_set_add_def)

subsection \<open>parseInt and the idiom \<open>parseInt(x) || d\<close>\<close>

definition is_digit :: "char \<Rightarrow> bool" where
  "is_digit ch = (let n = (of_char ch :: nat) in 48 \<le> n \<and> n \<le> 57)"

definition is_js_space :: "char \<Rightarrow> bool" where
  "is_js_space ch = (ch \<in> set '' \<newline>'' \<or> of_char ch \<in> {9::nat, 11, 12, 13})"

fun digits_value :: "nat \<Rightarrow> string \<Rightarrow> nat" where
  "digits_value acc [] = acc"
| "digits_value acc (d # ds) = digits_value (10 * acc + (of_char d - 48)) ds"

text \<open>
  \<open>parseInt(s)\<close> with radix 10: leading white space is skipped, an optional sign is read,
  then the longest run of decimal digits; no digit at all is \<open>NaN\<close> (here \<open>None\<close>).
  \<open>parseInt(undefined)\<close> parses the string \<open>"undefined"\<close> and so is \<open>NaN\<close> too.
\<close>

definition js_parseInt :: "string option \<Rightarrow> int option" where
  "js_parseInt v =
     (case v of None \<Rightarrow> None
      | Some s \<Rightarrow>
         (let s1 = dropWhile is_js_space s;
              (neg, s2) = (case s1 of
                             c # r \<Rightarrow> (if c = CHR ''-'' then (True, r)
                                      else if c = CHR ''+'' then (False, r) else (False, s1))
                           | [] \<Rightarrow> (False, []));
              ds = takeWhile is_digit s2
          in if ds = [] then None
             else Some ((if neg then -1 else 1) * int (digits_value 0 ds))))"

text \<open>\<open>n || d\<close> for a number: \<open>NaN\<close> and \<open>0\<close> are falsy and give \<open>d\<close>.\<close>

definition js_or_int :: "int option \<Rightarrow> int \<Rightarrow> int" where
  "js_or_int v d = (case v of Some n \<Rightarrow> if n = 0 then d else n | None \<Rightarrow> d)"

text \<open>\<open>s || d\<close> for an environment string: unset and empty are falsy.\<close>

definition js_or_str :: "string option \<Rightarrow> string \<Rightarrow> string" where
  "js_or_str v d = (case v of Some s \<Rightarrow> if s = [] then d else s | None \<Rightarrow> d)"

lemma js_or_int_nonzero: "d \<noteq> 0 \<Longrightarrow> js_or_int v d \<noteq> 0"
  by (simp add: js_or_int_def split: option.splits)

lemma js_or_int_cases: "js_or_int v d = d \<or> (\<exists>n. v = Some n \<and> n \<noteq> 0 \<and> js_or_int v d = n)"
  by (simp add: js_or_int_def split: option.splits)

end
