(* ===== verification/Json.thy ===== *)
theory Json
  imports Prelude
begin

text \<open>
  JavaScript values as they cross the MQTT service: the payload of \<open>publish\<close> (a string or a
  structured value from an HTTP body) and the decoded payload of an incoming message.
  Numbers are integers here (the payloads of this program are strings, flags, objects and
  small counts). \<open>JSON_stringify\<close> follows ECMAScript's \<open>JSON.stringify\<close> without
  indentation: strings are quoted with the escapes of \<open>QuoteJSONString\<close>, object members
  whose value is \<open>undefined\<close> are left out, \<open>undefined\<close> in an array prints as \<open>null\<close>,
  and \<open>undefined\<close> itself has no JSON text. \<open>js_toString\<close> is \<open>value.toString()\<close>,
  which throws on \<open>undefined\<close>. Characters are bytes: a string is its UTF-8 encoding.
\<close>

datatype jsval =
    JUndefined
  | JNull
  | JBool bool
  | JNumber int
  | JString string
  | JArray "jsval list"
  | JObject "(string \<times> jsval) list"

subsection \<open>Printing numbers and strings\<close>

fun nat_to_string :: "nat \<Rightarrow> string" where
  "nat_to_string n =
     (if n < 10 then [char_of (48 + n)] else nat_to_string (n div 10) @ [char_of (48 + n mod 10)])"

definition int_to_string :: "int \<Rightarrow> string" where
  "int_to_string i = (if i < 0 then CHR ''-'' # nat_to_string (nat (- i)) else nat_to_string (nat i))"

definition hex_digit :: "nat \<Rightarrow> char" where
  "hex_digit n = (if n < 10 then char_of (48 + n) else char_of (87 + n))"

definition backslash :: char where
  "backslash = char_of (92::nat)"

definition dquote :: char where
  "dquote = char_of (34::nat)"

text \<open>One code unit of \<open>QuoteJSONString\<close>.\<close>

definition json_escape_char :: "char \<Rightarrow> string" where
  "json_escape_char ch =
     (let n = (of_char ch :: nat)
      in if n = 8 then [backslash, CHR ''b'']
         else if n = 9 then [backslash, CHR ''t'']
         else if n = 10 then [backslash, CHR ''n'']
         else if n = 12 then [backslash, CHR ''f'']
         else if n = 13 then [backslash, CHR ''r'']
         else if n = 34 then [backslash, dquote]
         else if n = 92 then [backslash, backslash]
         else if n < 32 then [backslash, CHR ''u'', CHR ''0'', CHR ''0'', hex_digit (n div 16), hex_digit (n mod 16)]
         else [ch])"

definition json_quote :: "string \<Rightarrow> string" where
  "json_quote s = dquote # concat (map json_escape_char s) @ [dquote]"

subsection \<open>JSON.stringify and toString\<close>

fun json_text :: "jsval \<Rightarrow> string" where
  "json_text JUndefined = ''null''"
| "json_text JNull = ''null''"
| "json_text (JBool b) = (if b then ''true'' else ''false'')"
| "json_text (JNumber n) = int_to_string n"
| "json_text (JString s) = json_quote s"
| "json_text (JArray vs) = CHR ''['' # js_join CHR '','' (map json_text vs) @ '']''"
| "json_text (JObject kvs) =
     CHR ''{'' # js_join CHR '','' (map (\<lambda>kv. json_quote (fst kv) @ CHR '':'' # json_text (snd kv))
                                     (filter (\<lambda>kv. snd kv \<noteq> JUndefined) kvs)) @ ''}''"

definition JSON_stringify :: "jsval \<Rightarrow> string option" where
  "JSON_stringify v = (if v = JUndefined then None else Some (json_text v))"

definition js_typeof_object :: "jsval \<Rightarrow> bool" where
  "js_typeof_object v = (case v of JNull \<Rightarrow> True | JArray _ \<Rightarrow> True | JObject _ \<Rightarrow> True | _ \<Rightarrow> False)"

definition js_toString :: "jsval \<Rightarrow> js_error + string" where
  "js_toString v =
     (case v of
        JUndefined \<Rightarrow> Inl (TypeError ''Cannot read properties of undefined (reading 'toString')'')
      | JNull \<Rightarrow> Inl (TypeError ''Cannot read properties of null (reading 'toString')'')
      | JBool b \<Rightarrow> Inr (if b then ''true'' else ''false'')
      | JNumber n \<Rightarrow> Inr (int_to_string n)
      | JString s \<Rightarrow> Inr s
      | JArray vs \<Rightarrow> Inr (js_join CHR '','' (map json_text vs))
      | JObject _ \<Rightarrow> Inr ''[object Object]'')"

text \<open>
  The serialisation at the head of \<open>publish\<close>:
  \<open>typeof message === "object" ? JSON.stringify(message) : message.toString()\<close>.
  For the values of type \<open>object\<close> \<open>JSON.stringify\<close> always yields a string.
\<close>

definition serialize_message :: "jsval \<Rightarrow> js_error + string" where
  "serialize_message message =
     (if js_typeof_object message
      then (case JSON_stringify message of Some s \<Rightarrow> Inr s | None \<Rightarrow> Inl (TypeError ''undefined''))
      else js_toString message)"

lemma serialize_message_string [simp]: "serialize_message (JString s) = Inr s"
  by (simp add: serialize_message_def js_typeof_object_def js_toString_def)

lemma serialize_message_object:
  "js_typeof_object v \<Longrightarrow> serialize_message v = Inr (json_text v)"
  by (auto simp: serialize_message_def JSON_stringify_def js_typeof_object_def)

lemma serialize_message_undefined [simp]:
  "serialize_message JUndefined = Inl (TypeError ''Cannot read properties of undefined (reading 'toString')'')"
  by (simp add: serialize_message_def js_typeof_object_def js_toString_def)

lemma nat_to_string_not_Nil [simp]: "nat_to_string n \<noteq> []"
  by (subst nat_to_string.simps) simp

end
