(* ===== verification/Topics.thy ===== *)
theory Topics
  imports Prelude
begin

text \<open>
  The device topic mapper of \<open>src/controllers/deviceController.js\<close>: the two queue names
  of a device (\<open>octaloop-mdm-in-{deviceId}\<close>, \<open>octaloop-mdm-out-{deviceId}\<close>), the
  identifier check of \<open>addDevice\<close>, and the inverse direction used by \<open>listDevices\<close>,
  which splits a subscription name at \<open>"-"\<close> and rejoins all pieces after the third to
  recover the device identifier. The main results are the two round trips between names
  and identifiers (for every identifier, hyphens included) and the characterisation of the
  device map that \<open>listDevices\<close> builds from the subscription registry.
\<close>

subsection \<open>Queue names and identifier validation\<close>

definition inQueue_name :: "string \<Rightarrow> topic" where
  "inQueue_name deviceId = ''octaloop-mdm-in-'' @ deviceId"

definition outQueue_name :: "string \<Rightarrow> topic" where
  "outQueue_name deviceId = ''octaloop-mdm-out-'' @ deviceId"

text \<open>The character class \<open>[a-zA-Z0-9_-]\<close> and the test \<open>/^[a-zA-Z0-9_-]+$/\<close>.\<close>

definition is_id_char :: "char \<Rightarrow> bool" where
  "is_id_char ch =
     (let n = (of_char ch :: nat)
      in (97 \<le> n \<and> n \<le> 122) \<or> (65 \<le> n \<and> n \<le> 90) \<or> (48 \<le> n \<and> n \<le> 57) \<or> n = 95 \<or> n = 45)"

definition valid_device_id :: "string \<Rightarrow> bool" where
  "valid_device_id deviceId = (deviceId \<noteq> [] \<and> list_all is_id_char deviceId)"

subsection \<open>Reading a subscription name back (listDevices)\<close>

text \<open>
  One iteration of the \<open>forEach\<close> of \<open>listDevices\<close>, up to the map update:
  the prefix test, \<open>split("-")\<close>, the length test, \<open>slice(3).join("-")\<close> and \<open>parts[2]\<close>.
\<close>

definition parse_subscription :: "topic \<Rightarrow> (string \<times> string) option" where
  "parse_subscription subscription =
     (if js_startsWith subscription ''octaloop-mdm-in-'' \<or> js_startsWith subscription ''octaloop-mdm-out-''
      then (let parts = js_split CHR ''-'' subscription
            in if 4 \<le> length parts then Some (js_join CHR ''-'' (drop 3 parts), parts ! 2) else None)
      else None)"

text \<open>
  The \<open>deviceQueues\<close> map of \<open>listDevices\<close>: a JavaScript \<open>Map\<close> from device identifier
  to the pair (\<open>inQueue\<close>, \<open>outQueue\<close>), \<open>None\<close> standing for \<open>null\<close>. A \<open>Map\<close> keeps
  insertion order and \<open>set\<close> on a present key keeps its position: \<open>AList.update\<close>.
\<close>

type_synonym device_queues = "(string \<times> (topic option \<times> topic option)) list"

definition entry_of :: "device_queues \<Rightarrow> string \<Rightarrow> topic option \<times> topic option" where
  "entry_of m deviceId = (case map_of m deviceId of Some e \<Rightarrow> e | None \<Rightarrow> (None, None))"

definition record_subscription :: "device_queues \<Rightarrow> topic \<Rightarrow> device_queues" where
  "record_subscription m subscription =
     (case parse_subscription subscription of
        None \<Rightarrow> m
      | Some (deviceId, queueType) \<Rightarrow>
          (let (iq, oq) = entry_of m deviceId;
               e = (if queueType = ''in'' then (Some subscription, oq)
                    else if queueType = ''out'' then (iq, Some subscription) else (iq, oq))
           in AList.update deviceId e m))"

definition device_queues_of :: "topic list \<Rightarrow> device_queues" where
  "device_queues_of subscriptions = fold (\<lambda>s m. record_subscription m s) subscriptions []"

datatype device_status = Active | Partial

record device_summary =
  dev_id :: string
  dev_inQueue :: "topic option"
  dev_outQueue :: "topic option"
  dev_status :: device_status
  hasInQueue :: bool
  hasOutQueue :: bool

text \<open>JavaScript truthiness of a queue field: \<open>null\<close> and \<open>""\<close> are falsy.\<close>

definition js_truthy_topic :: "topic option \<Rightarrow> bool" where
  "js_truthy_topic v = (case v of Some s \<Rightarrow> s \<noteq> [] | None \<Rightarrow> False)"

definition summarise_device :: "string \<times> (topic option \<times> topic option) \<Rightarrow> device_summary" where
  "summarise_device entry =
     (case entry of (deviceId, (iq, oq)) \<Rightarrow>
        \<lparr>dev_id = deviceId, dev_inQueue = iq, dev_outQueue = oq,
         dev_status = (if js_truthy_topic iq \<and> js_truthy_topic oq then Active else Partial),
         hasInQueue = js_truthy_topic iq, hasOutQueue = js_truthy_topic oq\<rparr>)"

record device_listing =
  devices :: "device_summary list"
  totalDevices :: nat
  activeDevices :: nat
  partialDevices :: nat

definition listDevices :: "topic list \<Rightarrow> device_listing" where
  "listDevices subscriptions =
     (let ds = map summarise_device (device_queues_of subscriptions)
      in \<lparr>devices = ds, totalDevices = length ds,
          activeDevices = length (filter (\<lambda>d. dev_status d = Active) ds),
          partialDevices = length (filter (\<lambda>d. dev_status d = Partial) ds)\<rparr>)"

subsection \<open>Names\<close>

lemma device_status_neq [simp]:
  "(x \<noteq> Active) = (x = Partial)" "(x \<noteq> Partial) = (x = Active)"
  by (cases x; simp)+

lemma inQueue_name_split [simp]:
  "js_split CHR ''-'' (inQueue_name d) = [''octaloop'', ''mdm'', ''in''] @ js_split CHR ''-'' d"
proof -
  have "inQueue_name d = ''octaloop'' @ CHR ''-'' # ''mdm'' @ CHR ''-'' # ''in'' @ CHR ''-'' # d"
    by (simp add: inQueue_name_def)
  then show ?thesis by (simp only: js_split_append_sep) (simp add: js_split_no_sep)
qed

lemma outQueue_name_split [simp]:
  "js_split CHR ''-'' (outQueue_name d) = [''octaloop'', ''mdm'', ''out''] @ js_split CHR ''-'' d"
proof -
  have "outQueue_name d = ''octaloop'' @ CHR ''-'' # ''mdm'' @ CHR ''-'' # ''out'' @ CHR ''-'' # d"
    by (simp add: outQueue_name_def)
  then show ?thesis by (simp only: js_split_append_sep) (simp add: js_split_no_sep)
qed

lemma inQueue_name_inj [simp]: "inQueue_name d = inQueue_name d' \<longleftrightarrow> d = d'"
  by (simp add: inQueue_name_def)

lemma outQueue_name_inj [simp]: "outQueue_name d = outQueue_name d' \<longleftrightarrow> d = d'"
  by (simp add: outQueue_name_def)

lemma inQueue_name_neq_outQueue_name [simp]: "inQueue_name d \<noteq> outQueue_name d'"
  by (simp add: inQueue_name_def outQueue_name_def)

lemma outQueue_name_neq_inQueue_name [simp]: "outQueue_name d \<noteq> inQueue_name d'"
  by (simp add: inQueue_name_def outQueue_name_def)

lemma inQueue_name_not_startsWith_out [simp]:
  "\<not> js_startsWith (inQueue_name d) ''octaloop-mdm-out-''"
  by (simp add: inQueue_name_def js_startsWith_def)

lemma parse_inQueue_name: "parse_subscription (inQueue_name d) = Some (d, ''in'')"
proof -
  have "js_startsWith (inQueue_name d) ''octaloop-mdm-in-''"
    unfolding inQueue_name_def by (rule js_startsWith_append)
  then show ?thesis by (simp add: parse_subscription_def Let_def)
qed

lemma parse_outQueue_name: "parse_subscription (outQueue_name d) = Some (d, ''out'')"
proof -
  have "js_startsWith (outQueue_name d) ''octaloop-mdm-out-''"
    unfolding outQueue_name_def by (rule js_startsWith_append)
  then show ?thesis by (simp add: parse_subscription_def Let_def)
qed

lemma startsWith_in_shape:
  "js_startsWith s ''octaloop-mdm-in-'' \<Longrightarrow> s = inQueue_name (drop (length ''octaloop-mdm-in-'') s)"
  unfolding inQueue_name_def by (rule js_startsWith_shape)

lemma startsWith_out_shape:
  "js_startsWith s ''octaloop-mdm-out-'' \<Longrightarrow> s = outQueue_name (drop (length ''octaloop-mdm-out-'') s)"
  unfolding outQueue_name_def by (rule js_startsWith_shape)

lemma parse_subscription_cases:
  "parse_subscription s = Some (d, t) \<Longrightarrow>
     (t = ''in'' \<and> s = inQueue_name d) \<or> (t = ''out'' \<and> s = outQueue_name d)"
proof -
  assume p: "parse_subscription s = Some (d, t)"
  then have "js_startsWith s ''octaloop-mdm-in-'' \<or> js_startsWith s ''octaloop-mdm-out-''"
    by (auto simp: parse_subscription_def split: if_splits)
  then show ?thesis
  proof
    assume "js_startsWith s ''octaloop-mdm-in-''"
    then have "s = inQueue_name (drop (length ''octaloop-mdm-in-'') s)" by (rule startsWith_in_shape)
    with p show ?thesis by (metis parse_inQueue_name option.inject prod.inject)
  next
    assume "js_startsWith s ''octaloop-mdm-out-''"
    then have "s = outQueue_name (drop (length ''octaloop-mdm-out-'') s)" by (rule startsWith_out_shape)
    with p show ?thesis by (metis parse_outQueue_name option.inject prod.inject)
  qed
qed

lemma parse_subscription_eq_in:
  "parse_subscription s = Some (d, ''in'') \<longleftrightarrow> s = inQueue_name d"
  using parse_subscription_cases [of s d "''in''"] parse_inQueue_name by auto

lemma parse_subscription_eq_out:
  "parse_subscription s = Some (d, ''out'') \<longleftrightarrow> s = outQueue_name d"
  using parse_subscription_cases [of s d "''out''"] parse_outQueue_name by auto

subsection \<open>The device map of listDevices\<close>

lemma not_parse_other:
  "parse_subscription s = None \<Longrightarrow> s \<noteq> inQueue_name d \<and> s \<noteq> outQueue_name d"
  by (auto simp: parse_inQueue_name parse_outQueue_name)

lemma map_of_record_subscription:
  "map_of (record_subscription m s) d =
     (if s = inQueue_name d then Some (Some s, snd (entry_of m d))
      else if s = outQueue_name d then Some (fst (entry_of m d), Some s)
      else map_of m d)"
proof (cases "parse_subscription s")
  case None
  then show ?thesis by (simp add: record_subscription_def not_parse_other)
next
  case (Some p)
  obtain d' t where p: "p = (d', t)" by (cases p)
  with Some have "(t = ''in'' \<and> s = inQueue_name d') \<or> (t = ''out'' \<and> s = outQueue_name d')"
    by (simp add: parse_subscription_cases)
  with Some p show ?thesis
    by (auto simp: record_subscription_def update_conv' split: prod.splits)
qed

lemma entry_of_record_subscription:
  "entry_of (record_subscription m s) d =
     (if s = inQueue_name d then (Some s, snd (entry_of m d))
      else if s = outQueue_name d then (fst (entry_of m d), Some s)
      else entry_of m d)"
  by (simp add: entry_of_def map_of_record_subscription)

lemma map_of_fold_record_subscription:
  "map_of (fold (\<lambda>s m. record_subscription m s) subs m) d =
     (if inQueue_name d \<in> set subs \<or> outQueue_name d \<in> set subs then
        Some (if inQueue_name d \<in> set subs then Some (inQueue_name d) else fst (entry_of m d),
              if outQueue_name d \<in> set subs then Some (outQueue_name d) else snd (entry_of m d))
      else map_of m d)"
proof (induction subs arbitrary: m)
  case Nil
  then show ?case by simp
next
  case (Cons s subs)
  then show ?case
    by (auto simp: map_of_record_subscription entry_of_record_subscription entry_of_def)
qed

lemma map_of_device_queues_of:
  "map_of (device_queues_of subs) d =
     (if inQueue_name d \<in> set subs \<or> outQueue_name d \<in> set subs then
        Some (if inQueue_name d \<in> set subs then Some (inQueue_name d) else None,
              if outQueue_name d \<in> set subs then Some (outQueue_name d) else None)
      else None)"
  by (simp add: device_queues_of_def map_of_fold_record_subscription entry_of_def)

lemma distinct_record_subscription:
  "distinct (map fst m) \<Longrightarrow> distinct (map fst (record_subscription m s))"
  by (auto simp: record_subscription_def distinct_update split: option.splits prod.splits)

lemma distinct_device_queues_of: "distinct (map fst (device_queues_of subs))"
proof -
  have "distinct (map fst m) \<Longrightarrow> distinct (map fst (fold (\<lambda>s m. record_subscription m s) subs m))" for m
    by (induction subs arbitrary: m) (simp_all add: distinct_record_subscription)
  then show ?thesis by (simp add: device_queues_of_def)
qed

lemma device_queues_of_member:
  "(d, e) \<in> set (device_queues_of subs) \<Longrightarrow> map_of (device_queues_of subs) d = Some e"
  by (simp add: distinct_device_queues_of)

lemma js_truthy_queue_names [simp]:
  "js_truthy_topic (Some (inQueue_name d))" "js_truthy_topic (Some (outQueue_name d))"
  "\<not> js_truthy_topic None"
  by (simp_all add: js_truthy_topic_def inQueue_name_def outQueue_name_def)

lemma valid_device_id_no_char:
  "valid_device_id d \<Longrightarrow> \<not> is_id_char ch \<Longrightarrow> ch \<notin> set d"
  by (auto simp: valid_device_id_def list_all_iff)

subsection \<open>The device listing\<close>

lemma summary_status:
  assumes "x \<in> set (devices (listDevices subs))"
  shows "dev_status x = Active \<longleftrightarrow> inQueue_name (dev_id x) \<in> set subs \<and> outQueue_name (dev_id x) \<in> set subs"
proof -
  from assms obtain d e where de: "(d, e) \<in> set (device_queues_of subs)" and x: "x = summarise_device (d, e)"
    by (auto simp: listDevices_def Let_def)
  from de have "map_of (device_queues_of subs) d = Some e" by (rule device_queues_of_member)
  then have "e = (if inQueue_name d \<in> set subs then Some (inQueue_name d) else None,
                  if outQueue_name d \<in> set subs then Some (outQueue_name d) else None)"
    by (simp add: map_of_device_queues_of split: if_splits)
  with x show ?thesis by (simp add: summarise_device_def)
qed

lemma listDevices_active_iff:
  "(\<exists>x \<in> set (devices (listDevices subs)). dev_id x = d \<and> dev_status x = Active) \<longleftrightarrow>
   inQueue_name d \<in> set subs \<and> outQueue_name d \<in> set subs"
proof
  assume "\<exists>x \<in> set (devices (listDevices subs)). dev_id x = d \<and> dev_status x = Active"
  then show "inQueue_name d \<in> set subs \<and> outQueue_name d \<in> set subs"
    using summary_status by blast
next
  assume both: "inQueue_name d \<in> set subs \<and> outQueue_name d \<in> set subs"
  then have "map_of (device_queues_of subs) d = Some (Some (inQueue_name d), Some (outQueue_name d))"
    by (simp add: map_of_device_queues_of)
  then have "(d, Some (inQueue_name d), Some (outQueue_name d)) \<in> set (device_queues_of subs)"
    by (rule map_of_SomeD)
  then have "summarise_device (d, Some (inQueue_name d), Some (outQueue_name d)) \<in> set (devices (listDevices subs))"
    by (simp add: listDevices_def Let_def)
  then show "\<exists>x \<in> set (devices (listDevices subs)). dev_id x = d \<and> dev_status x = Active"
    by (force simp: summarise_device_def)
qed

end
