(* ===== verification/Router.thy ===== *)
theory Router
  imports Json Topics
begin

text \<open>
  The message router of \<open>src/services/mqttService.js\<close>: the payload decoding of the
  \<open>"message"\<close> handler (\<open>JSON.parse\<close>, falling back to the raw string) and
  \<open>routeMessage\<close>, which splits the topic at \<open>"/"\<close> and emits exactly one of
  \<open>deviceMessage\<close>, \<open>commandMessage\<close> and \<open>genericMessage\<close>. Array reads past the end
  are \<open>undefined\<close> in JavaScript and \<open>None\<close> here, so a short topic in a device or
  command scope still classifies. \<open>JSON.parse\<close> is a parameter \<open>json_parse\<close> of the
  decoder (\<open>None\<close> where it throws a \<open>SyntaxError\<close>).
\<close>

datatype routed_message =
    DeviceMessage "string option" "string option" jsval
  | CommandMessage "string option" "string option" jsval
  | GenericMessage topic jsval

definition decode_payload :: "(string \<Rightarrow> jsval option) \<Rightarrow> string \<Rightarrow> jsval" where
  "decode_payload json_parse messageString =
     (case json_parse messageString of Some v \<Rightarrow> v | None \<Rightarrow> JString messageString)"

definition routeMessage :: "topic \<Rightarrow> jsval \<Rightarrow> routed_message" where
  "routeMessage topic message =
     (let topicParts = js_split CHR ''/'' topic
      in if js_at topicParts 0 = Some ''mdm'' \<and> js_at topicParts 1 = Some ''devices''
         then DeviceMessage (js_at topicParts 2) (js_at topicParts 3) message
         else if js_at topicParts 0 = Some ''mdm'' \<and> js_at topicParts 1 = Some ''commands''
         then CommandMessage (js_at topicParts 2) (js_at topicParts 3) message
         else GenericMessage topic message)"

text \<open>The payload a routed event carries: every branch passes the decoded message on.\<close>

fun routed_payload :: "routed_message \<Rightarrow> jsval" where
  "routed_payload (DeviceMessage _ _ m) = m"
| "routed_payload (CommandMessage _ _ m) = m"
| "routed_payload (GenericMessage _ m) = m"

lemma js_split_slash_scope:
  "CHR ''/'' \<notin> set d \<Longrightarrow> CHR ''/'' \<notin> set a \<Longrightarrow>
   js_split CHR ''/'' (p @ CHR ''/'' # q @ CHR ''/'' # d @ CHR ''/'' # a) =
   js_split CHR ''/'' p @ js_split CHR ''/'' q @ [d, a]"
  by (simp add: js_split_append_sep js_split_no_sep)

lemma routeMessage_generic:
  "takeWhile (\<lambda>x. x \<noteq> CHR ''/'') topic \<noteq> ''mdm'' \<Longrightarrow> routeMessage topic m = GenericMessage topic m"
  by (simp add: routeMessage_def Let_def)

lemma routed_payload_routeMessage [simp]: "routed_payload (routeMessage t m) = m"
  by (simp add: routeMessage_def Let_def)

end
