(* ===== verification/Service.thy ===== *)
theory Service
  imports Router
begin

text \<open>
  The \<open>MQTTService\<close> class of \<open>src/services/mqttService.js\<close>: the connection manager,
  the subscription registry and the publish/subscribe gateway, which share one object.
  \<^item> The object's fields are the record \<open>mqtt_service\<close>; \<open>this.client\<close> is an
    \<open>mqtt_client option\<close> (\<open>None\<close> is \<open>null\<close>), and the JavaScript \<open>Set\<close> of
    subscriptions is an insertion-ordered list.
  \<^item> The client object of the mqtt.js library is modelled by what the service can observe
    of it: its options, its link state and the requests that wait for a broker
    acknowledgement (\<open>outgoing\<close>). \<open>client_emits\<close> states which events the library emits
    in which link state; it is the environment of the service, not code of this repository.
  \<^item> Each method and each event handler registered in \<open>connect\<close> is one definition that
    returns the new state (and the events the service emits, or the settled promise);
    a thrown exception or a rejected promise is an \<open>Inl\<close>.
  \<^item> \<open>sys_step\<close> interleaves the library's events, the broker's acknowledgements and the
    public methods; \<open>reachable\<close> is every state after the single \<open>connect()\<close> of
    \<open>startServer\<close>.
\<close>

subsection \<open>Connection options (connect, lines 19--30)\<close>

record connect_options =
  clientId :: string
  username :: "string option"
  password :: "string option"
  keepalive :: int
  clean :: bool
  reconnectPeriod :: int
  connectTimeout :: nat
  rejectUnauthorized :: bool

text \<open>\<open>rnd\<close> is \<open>Math.random().toString(16).substr(2, 8)\<close>.\<close>

definition connect_options_of :: "env \<Rightarrow> string \<Rightarrow> connect_options" where
  "connect_options_of env rnd =
     \<lparr>clientId = js_or_str (env ''MQTT_CLIENT_ID'') (''mdm-client-'' @ rnd),
      username = env ''MQTT_USERNAME'',
      password = env ''MQTT_PASSWORD'',
      keepalive = js_or_int (js_parseInt (env ''MQTT_KEEP_ALIVE'')) 60,
      clean = (env ''MQTT_CLEAN_SESSION'' = Some ''true''),
      reconnectPeriod = js_or_int (js_parseInt (env ''MQTT_RECONNECT_PERIOD'')) 1000,
      connectTimeout = 30 * 1000,
      rejectUnauthorized = (env ''MQTT_REJECT_UNAUTHORIZED'' = Some ''true'')\<rparr>"

subsection \<open>The client and the service state\<close>

text \<open>
  Link states of an mqtt.js client: \<open>Closed\<close> is a dropped link that the library does not
  reconnect (\<open>reconnectPeriod \<le> 0\<close>), \<open>Ended\<close> a client on which \<open>end()\<close> was called.
\<close>

datatype link = Connecting | Online | Offline | Reconnecting | Closed | Ended

datatype sub_origin = FromSubscribe | FromCreateQueue

datatype client_req =
    ReqSubscribe topic nat sub_origin
  | ReqUnsubscribe topic
  | ReqPublish topic string nat bool

record mqtt_client =
  brokerUrl :: "string option"
  options :: connect_options
  link :: link
  outgoing :: "client_req list"

record mqtt_service =
  client :: "mqtt_client option"
  isConnected :: bool
  subscriptions :: "topic list"
  reconnectAttempts :: nat
  maxReconnectAttempts :: nat

definition MQTTService_new :: mqtt_service where
  "MQTTService_new =
     \<lparr>client = None, isConnected = False, subscriptions = [], reconnectAttempts = 0,
      maxReconnectAttempts = 10\<rparr>"

datatype service_event =
    EvConnected
  | EvDisconnected
  | EvOffline
  | EvError string
  | EvMessage topic jsval
  | EvRouted routed_message
  | EvUncaught js_error

text \<open>
  A method call on \<open>this.client\<close>: a \<open>TypeError\<close> when it is \<open>null\<close>. The two library
  calls the service makes are \<open>subscribe\<close>/\<open>unsubscribe\<close>/\<open>publish\<close> (a request that
  waits for its acknowledgement) and \<open>end()\<close>.
\<close>

definition client_call :: "(mqtt_client \<Rightarrow> mqtt_client) \<Rightarrow> mqtt_service \<Rightarrow> js_error + mqtt_service" where
  "client_call f s =
     (case client s of
        None \<Rightarrow> Inl (TypeError ''Cannot read properties of null'')
      | Some c \<Rightarrow> Inr (s\<lparr>client := Some (f c)\<rparr>))"

definition client_request :: "client_req \<Rightarrow> mqtt_client \<Rightarrow> mqtt_client" where
  "client_request r c = c\<lparr>outgoing := outgoing c @ [r]\<rparr>"

definition client_end :: "mqtt_client \<Rightarrow> mqtt_client" where
  "client_end c = c\<lparr>link := Ended\<rparr>"

subsection \<open>connect (lines 17--36)\<close>

text \<open>
  \<open>mqtt.connect\<close> returns a client that connects in the background, or throws
  synchronously; \<open>thrown\<close> is that synchronous exception, which \<open>connect\<close> rethrows.
  The handlers registered on the client are the definitions below.
\<close>

definition connect :: "env \<Rightarrow> string \<Rightarrow> js_error option \<Rightarrow> mqtt_service \<Rightarrow> js_error + mqtt_service" where
  "connect env rnd thrown s =
     (case thrown of
        Some e \<Rightarrow> Inl e
      | None \<Rightarrow> Inr (s\<lparr>client := Some \<lparr>brokerUrl = env ''MQTT_BROKER_URL'',
                                          options = connect_options_of env rnd,
                                          link = Connecting, outgoing = []\<rparr>\<rparr>))"

subsection \<open>The gateway operations\<close>

definition subscribe :: "topic \<Rightarrow> nat \<Rightarrow> mqtt_service \<Rightarrow> js_error + (mqtt_service \<times> bool)" where
  "subscribe topic qos s =
     (if \<not> isConnected s then Inr (s, False)
      else (case client_call (client_request (ReqSubscribe topic qos FromSubscribe)) s of
              Inl e \<Rightarrow> Inl e
            | Inr s' \<Rightarrow> Inr (s', True)))"

definition unsubscribe :: "topic \<Rightarrow> mqtt_service \<Rightarrow> js_error + (mqtt_service \<times> bool)" where
  "unsubscribe topic s =
     (if \<not> isConnected s then Inr (s, False)
      else (case client_call (client_request (ReqUnsubscribe topic)) s of
              Inl e \<Rightarrow> Inl e
            | Inr s' \<Rightarrow> Inr (s', True)))"

definition not_connected :: js_error where
  "not_connected = Error ''MQTT client not connected''"

definition publish :: "topic \<Rightarrow> jsval \<Rightarrow> nat \<Rightarrow> bool \<Rightarrow> mqtt_service \<Rightarrow> js_error + mqtt_service" where
  "publish topic message qos retain s =
     (if \<not> isConnected s then Inl not_connected
      else (case serialize_message message of
              Inl e \<Rightarrow> Inl e
            | Inr messageString \<Rightarrow> client_call (client_request (ReqPublish topic messageString qos retain)) s))"

text \<open>The \<open>durable\<close> option is handed to the library, which ignores it.\<close>

definition createQueue :: "topic \<Rightarrow> nat \<Rightarrow> bool \<Rightarrow> mqtt_service \<Rightarrow> js_error + mqtt_service" where
  "createQueue queueName qos durable s =
     (if \<not> isConnected s then Inl not_connected
      else client_call (client_request (ReqSubscribe queueName qos FromCreateQueue)) s)"

definition disconnect :: "mqtt_service \<Rightarrow> mqtt_service" where
  "disconnect s =
     (case client s of
        None \<Rightarrow> s
      | Some c \<Rightarrow> s\<lparr>client := Some (client_end c), isConnected := False\<rparr>)"

record connection_status =
  st_connected :: bool
  st_subscriptions :: "topic list"
  st_reconnectAttempts :: nat

definition getConnectionStatus :: "mqtt_service \<Rightarrow> connection_status" where
  "getConnectionStatus s =
     \<lparr>st_connected = isConnected s, st_subscriptions = subscriptions s,
      st_reconnectAttempts = reconnectAttempts s\<rparr>"

text \<open>\<open>broadcastToAllDevices\<close> calls \<open>this.broadcast\<close>, which the class does not define.\<close>

definition broadcastToAllDevices :: "jsval \<Rightarrow> mqtt_service \<Rightarrow> js_error + mqtt_service" where
  "broadcastToAllDevices message s = Inl (TypeError ''this.broadcast is not a function'')"

subsection \<open>Acknowledgements: the callbacks passed to the library\<close>

text \<open>
  The broker answers a request with an error or with the granted subscriptions; the
  callback of \<open>subscribe\<close>/\<open>createQueue\<close> adds the topic on success, that of
  \<open>unsubscribe\<close> deletes it, and those of \<open>createQueue\<close> and \<open>publish\<close> settle the
  promise the method returned.
\<close>

type_synonym granted = "(topic \<times> nat) list"

type_synonym ack_result = "js_error + granted"

datatype ack_outcome = NoPromise | Resolved | ResolvedGranted granted | Rejected js_error

definition subscribe_cb :: "topic \<Rightarrow> ack_result \<Rightarrow> mqtt_service \<Rightarrow> mqtt_service" where
  "subscribe_cb topic res s =
     (case res of Inl error \<Rightarrow> s | Inr g \<Rightarrow> s\<lparr>subscriptions := js_set_add (subscriptions s) topic\<rparr>)"

definition unsubscribe_cb :: "topic \<Rightarrow> ack_result \<Rightarrow> mqtt_service \<Rightarrow> mqtt_service" where
  "unsubscribe_cb topic res s =
     (case res of Inl error \<Rightarrow> s | Inr g \<Rightarrow> s\<lparr>subscriptions := js_set_delete (subscriptions s) topic\<rparr>)"

definition publish_cb :: "ack_result \<Rightarrow> ack_outcome" where
  "publish_cb res = (case res of Inl error \<Rightarrow> Rejected error | Inr g \<Rightarrow> Resolved)"

definition createQueue_cb :: "topic \<Rightarrow> ack_result \<Rightarrow> mqtt_service \<Rightarrow> mqtt_service \<times> ack_outcome" where
  "createQueue_cb queueName res s =
     (case res of
        Inl error \<Rightarrow> (s, Rejected error)
      | Inr granted \<Rightarrow> (s\<lparr>subscriptions := js_set_add (subscriptions s) queueName\<rparr>, ResolvedGranted granted))"

text \<open>The library calls the callback that was passed with the request.\<close>

definition run_callback :: "client_req \<Rightarrow> ack_result \<Rightarrow> mqtt_service \<Rightarrow> mqtt_service \<times> ack_outcome" where
  "run_callback r res s =
     (case r of
        ReqSubscribe t q FromSubscribe \<Rightarrow> (subscribe_cb t res s, NoPromise)
      | ReqSubscribe t q FromCreateQueue \<Rightarrow> createQueue_cb t res s
      | ReqUnsubscribe t \<Rightarrow> (unsubscribe_cb t res s, NoPromise)
      | ReqPublish t m q rt \<Rightarrow> (s, publish_cb res))"

definition drop_at :: "nat \<Rightarrow> 'a list \<Rightarrow> 'a list" where
  "drop_at i xs = take i xs @ drop (Suc i) xs"

definition on_ack :: "nat \<Rightarrow> ack_result \<Rightarrow> mqtt_service \<Rightarrow> mqtt_service \<times> ack_outcome" where
  "on_ack i res s =
     (case client s of
        None \<Rightarrow> (s, NoPromise)
      | Some c \<Rightarrow>
          if i < length (outgoing c)
          then run_callback (outgoing c ! i) res (s\<lparr>client := Some (c\<lparr>outgoing := drop_at i (outgoing c)\<rparr>)\<rparr>)
          else (s, NoPromise))"

subsection \<open>The event handlers registered in connect (lines 39--105)\<close>

fun subscribe_each :: "topic list \<Rightarrow> mqtt_service \<Rightarrow> js_error + mqtt_service" where
  "subscribe_each [] s = Inr s"
| "subscribe_each (t # ts) s =
     (case subscribe t 1 s of Inl e \<Rightarrow> Inl e | Inr (s', ok) \<Rightarrow> subscribe_each ts s')"

definition js_trim :: "string \<Rightarrow> string" where
  "js_trim s = rev (dropWhile is_js_space (rev (dropWhile is_js_space s)))"

definition default_topics :: string where
  "default_topics = ''octaloop-mdm-in''"

definition subscribeToDefaultTopics :: "mqtt_service \<Rightarrow> js_error + mqtt_service" where
  "subscribeToDefaultTopics s =
     (if default_topics = [] then Inr s
      else subscribe_each (map js_trim (js_split CHR '','' default_topics)) s)"

definition on_connect :: "mqtt_service \<Rightarrow> mqtt_service \<times> service_event list" where
  "on_connect s =
     (let s1 = s\<lparr>isConnected := True, reconnectAttempts := 0\<rparr>
      in case subscribeToDefaultTopics s1 of
           Inl e \<Rightarrow> (s1, [EvConnected, EvUncaught e])
         | Inr s2 \<Rightarrow> (s2, [EvConnected]))"

definition on_disconnect :: "mqtt_service \<Rightarrow> mqtt_service \<times> service_event list" where
  "on_disconnect s = (s\<lparr>isConnected := False\<rparr>, [EvDisconnected])"

definition on_reconnect :: "mqtt_service \<Rightarrow> mqtt_service \<times> service_event list" where
  "on_reconnect s =
     (let s1 = s\<lparr>reconnectAttempts := Suc (reconnectAttempts s)\<rparr>
      in if maxReconnectAttempts s1 < reconnectAttempts s1
         then (case client_call client_end s1 of
                 Inl e \<Rightarrow> (s1, [EvUncaught e])
               | Inr s2 \<Rightarrow> (s2, []))
         else (s1, []))"

definition on_error :: "string \<Rightarrow> mqtt_service \<Rightarrow> mqtt_service \<times> service_event list" where
  "on_error msg s = (s, [EvError msg])"

definition on_offline :: "mqtt_service \<Rightarrow> mqtt_service \<times> service_event list" where
  "on_offline s = (s\<lparr>isConnected := False\<rparr>, [EvOffline])"

definition on_message ::
  "(string \<Rightarrow> jsval option) \<Rightarrow> topic \<Rightarrow> string \<Rightarrow> mqtt_service \<Rightarrow> mqtt_service \<times> service_event list" where
  "on_message json_parse topic message s =
     (let parsedMessage = decode_payload json_parse message
      in (s, [EvMessage topic parsedMessage, EvRouted (routeMessage topic parsedMessage)]))"

datatype client_event =
    CConnect | CDisconnect | CReconnect | CError string | COffline | CClose | CMessage topic string

text \<open>The service registers no \<open>close\<close> handler.\<close>

fun handle_event ::
  "(string \<Rightarrow> jsval option) \<Rightarrow> client_event \<Rightarrow> mqtt_service \<Rightarrow> mqtt_service \<times> service_event list" where
  "handle_event p CConnect s = on_connect s"
| "handle_event p CDisconnect s = on_disconnect s"
| "handle_event p CReconnect s = on_reconnect s"
| "handle_event p (CError msg) s = on_error msg s"
| "handle_event p COffline s = on_offline s"
| "handle_event p CClose s = (s, [])"
| "handle_event p (CMessage t m) s = on_message p t m s"

end
