(* ===== verification/Connection.thy ===== *)
theory Connection
  imports Service
begin

text \<open>
  The running service as a transition system. \<open>client_emits\<close> is the event protocol of
  the mqtt.js client: a connection acknowledgement in \<open>Connecting\<close> or \<open>Reconnecting\<close>;
  \<open>offline\<close> once when an established or first link drops and \<open>reconnectPeriod > 0\<close>
  (no event at all, and no reconnection, otherwise); \<open>reconnect\<close> at each attempt;
  a silent \<open>close\<close> when an attempt fails; nothing after \<open>end()\<close>. \<open>sys_step\<close> lets
  any of these events reach its handler, lets the broker acknowledge any pending request
  (a failure may also be a flush of an unconnected client), and lets the HTTP layer call
  the public methods. \<open>reachable\<close> starts from the single \<open>connect()\<close> of
  \<open>startServer\<close> (\<open>src/server.js\<close>).

  The invariant \<open>service_inv\<close> ties the flag \<open>isConnected\<close> to the client's link,
  bounds the reconnection counter, and keeps the registry free of duplicates; every step
  preserves it.
\<close>

inductive client_emits :: "connect_options \<Rightarrow> link \<Rightarrow> client_event \<Rightarrow> link \<Rightarrow> bool" where
  connack: "l = Connecting \<or> l = Reconnecting \<Longrightarrow> client_emits opts l CConnect Online"
| broker_disconnect: "client_emits opts Online CDisconnect Online"
| link_lost: "l = Connecting \<or> l = Online \<Longrightarrow> 0 < reconnectPeriod opts \<Longrightarrow> client_emits opts l COffline Offline"
| link_lost_no_retry: "l = Connecting \<or> l = Online \<Longrightarrow> \<not> 0 < reconnectPeriod opts \<Longrightarrow> client_emits opts l CClose Closed"
| attempt_failed: "client_emits opts Reconnecting CClose Offline"
| reconnect: "client_emits opts Offline CReconnect Reconnecting"
| error: "l \<noteq> Ended \<and> l \<noteq> Closed \<Longrightarrow> client_emits opts l (CError msg) l"
| message: "client_emits opts Online (CMessage t m) Online"

inductive_cases client_emits_CReconnect: "client_emits opts l CReconnect l'"
inductive_cases client_emits_CConnect: "client_emits opts l CConnect l'"
inductive_cases client_emits_CClose: "client_emits opts l CClose l'"
inductive_cases client_emits_Ended: "client_emits opts Ended e l'"

definition set_link :: "link \<Rightarrow> mqtt_service \<Rightarrow> mqtt_service" where
  "set_link l s = s\<lparr>client := map_option (\<lambda>c. c\<lparr>link := l\<rparr>) (client s)\<rparr>"

inductive sys_step ::
  "(string \<Rightarrow> jsval option) \<Rightarrow> mqtt_service \<Rightarrow> service_event list \<Rightarrow> mqtt_service \<Rightarrow> bool"
  for json_parse where
  client_event: "client s = Some c \<Longrightarrow> client_emits (options c) (link c) e l \<Longrightarrow>
      handle_event json_parse e (set_link l s) = (s', evs) \<Longrightarrow> sys_step json_parse s evs s'"
| broker_ack: "client s = Some c \<Longrightarrow> i < length (outgoing c) \<Longrightarrow> link c = Online \<or> isl res \<Longrightarrow>
      on_ack i res s = (s', out) \<Longrightarrow> sys_step json_parse s [] s'"
| api_subscribe: "subscribe t q s = Inr (s', b) \<Longrightarrow> sys_step json_parse s [] s'"
| api_unsubscribe: "unsubscribe t s = Inr (s', b) \<Longrightarrow> sys_step json_parse s [] s'"
| api_publish: "publish t m q r s = Inr s' \<Longrightarrow> sys_step json_parse s [] s'"
| api_createQueue: "createQueue t q d s = Inr s' \<Longrightarrow> sys_step json_parse s [] s'"
| api_disconnect: "sys_step json_parse s [] (disconnect s)"

inductive reachable ::
  "(string \<Rightarrow> jsval option) \<Rightarrow> env \<Rightarrow> string \<Rightarrow> mqtt_service \<Rightarrow> bool"
  for json_parse env rnd where
  start: "connect env rnd None MQTTService_new = Inr s \<Longrightarrow> reachable json_parse env rnd s"
| step: "reachable json_parse env rnd s \<Longrightarrow> sys_step json_parse s evs s' \<Longrightarrow> reachable json_parse env rnd s'"

text \<open>Runs of the system: any number of steps.\<close>

definition sys_reach :: "(string \<Rightarrow> jsval option) \<Rightarrow> mqtt_service \<Rightarrow> mqtt_service \<Rightarrow> bool" where
  "sys_reach p = (\<lambda>s s'. \<exists>evs. sys_step p s evs s')\<^sup>*\<^sup>*"

definition service_inv :: "connect_options \<Rightarrow> mqtt_service \<Rightarrow> bool" where
  "service_inv opts s \<longleftrightarrow>
     (\<exists>c. client s = Some c \<and> options c = opts \<and>
        (isConnected s \<longrightarrow> link c = Online \<or> link c = Closed) \<and>
        (link c = Closed \<longrightarrow> \<not> 0 < reconnectPeriod opts) \<and>
        (maxReconnectAttempts s < reconnectAttempts s \<longrightarrow> link c = Ended)) \<and>
     distinct (subscriptions s) \<and>
     maxReconnectAttempts s = 10 \<and>
     reconnectAttempts s \<le> Suc (maxReconnectAttempts s)"

subsection \<open>Operations that only queue a request\<close>

definition only_outgoing :: "mqtt_service \<Rightarrow> mqtt_service \<Rightarrow> bool" where
  "only_outgoing s s' \<longleftrightarrow>
     isConnected s' = isConnected s \<and> subscriptions s' = subscriptions s \<and>
     reconnectAttempts s' = reconnectAttempts s \<and> maxReconnectAttempts s' = maxReconnectAttempts s \<and>
     map_option link (client s') = map_option link (client s) \<and>
     map_option options (client s') = map_option options (client s)"

named_theorems queue_only "operations that change nothing but the client's pending requests"

lemma only_outgoing_refl [simp]: "only_outgoing s s"
  by (simp add: only_outgoing_def)

lemma only_outgoing_trans: "only_outgoing s s' \<Longrightarrow> only_outgoing s' s'' \<Longrightarrow> only_outgoing s s''"
  by (simp add: only_outgoing_def)

lemma client_call_request [queue_only]:
  "client_call (client_request r) s = Inr s' \<Longrightarrow> only_outgoing s s'"
  by (auto simp: client_call_def client_request_def only_outgoing_def split: option.splits)

lemma client_call_Inr_iff: "(\<exists>s'. client_call f s = Inr s') \<longleftrightarrow> client s \<noteq> None"
  by (simp add: client_call_def split: option.splits)

lemma subscribe_only_outgoing [queue_only]: "subscribe t q s = Inr (s', b) \<Longrightarrow> only_outgoing s s'"
  by (auto simp: subscribe_def dest: client_call_request split: if_splits sum.splits)

lemma unsubscribe_only_outgoing [queue_only]: "unsubscribe t s = Inr (s', b) \<Longrightarrow> only_outgoing s s'"
  by (auto simp: unsubscribe_def dest: client_call_request split: if_splits sum.splits)

lemma publish_only_outgoing [queue_only]: "publish t m q r s = Inr s' \<Longrightarrow> only_outgoing s s'"
  by (auto simp: publish_def dest: client_call_request split: if_splits sum.splits)

lemma createQueue_only_outgoing [queue_only]: "createQueue t q d s = Inr s' \<Longrightarrow> only_outgoing s s'"
  by (auto simp: createQueue_def dest: client_call_request split: if_splits)

lemma subscribe_each_only_outgoing [queue_only]: "subscribe_each ts s = Inr s' \<Longrightarrow> only_outgoing s s'"
proof (induction ts arbitrary: s)
  case Nil
  then show ?case by simp
next
  case (Cons t ts)
  then obtain s1 b where "subscribe t 1 s = Inr (s1, b)" and "subscribe_each ts s1 = Inr s'"
    by (auto split: sum.splits)
  then show ?case by (meson Cons.IH only_outgoing_trans subscribe_only_outgoing)
qed

lemma only_outgoing_client: "only_outgoing s s' \<Longrightarrow> (client s' = None) = (client s = None)"
  by (cases "client s"; cases "client s'") (auto simp: only_outgoing_def)

lemma only_outgoing_inv: "only_outgoing s s' \<Longrightarrow> service_inv opts s \<Longrightarrow> service_inv opts s'"
  by (cases "client s"; cases "client s'") (auto simp: only_outgoing_def service_inv_def)

lemma subscribe_client: "client s \<noteq> None \<Longrightarrow> \<exists>s' b. subscribe t q s = Inr (s', b)"
  by (auto simp: subscribe_def client_call_def split: option.splits)

lemma subscribe_each_client: "client s \<noteq> None \<Longrightarrow> \<exists>s'. subscribe_each ts s = Inr s'"
proof (induction ts arbitrary: s)
  case Nil
  then show ?case by simp
next
  case (Cons t ts)
  then obtain s1 b where s1: "subscribe t 1 s = Inr (s1, b)"
    using subscribe_client by blast
  then have "only_outgoing s s1" by (rule subscribe_only_outgoing)
  with Cons.prems have "client s1 \<noteq> None"
    by (simp add: only_outgoing_client)
  with Cons.IH s1 show ?case by simp
qed

subsection \<open>What each handler does to the state\<close>

lemma set_link_simps [simp]:
  "client (set_link l s) = map_option (\<lambda>c. c\<lparr>link := l\<rparr>) (client s)"
  "isConnected (set_link l s) = isConnected s"
  "subscriptions (set_link l s) = subscriptions s"
  "reconnectAttempts (set_link l s) = reconnectAttempts s"
  "maxReconnectAttempts (set_link l s) = maxReconnectAttempts s"
  by (simp_all add: set_link_def)

lemma on_connect_shape:
  assumes "client s \<noteq> None"
  shows "\<exists>s2. on_connect s = (s2, [EvConnected]) \<and>
               only_outgoing (s\<lparr>isConnected := True, reconnectAttempts := 0\<rparr>) s2"
proof -
  let ?s1 = "s\<lparr>isConnected := True, reconnectAttempts := 0\<rparr>"
  from assms have "client ?s1 \<noteq> None" by simp
  then obtain s2 where s2: "subscribe_each (map js_trim (js_split CHR '','' default_topics)) ?s1 = Inr s2"
    using subscribe_each_client by blast
  then have "subscribeToDefaultTopics ?s1 = Inr s2"
    by (simp add: subscribeToDefaultTopics_def default_topics_def)
  moreover from s2 have "only_outgoing ?s1 s2" by (rule subscribe_each_only_outgoing)
  ultimately show ?thesis by (simp add: on_connect_def)
qed

lemma on_reconnect_shape:
  assumes "client s = Some c"
  shows "on_reconnect s =
           (if maxReconnectAttempts s < Suc (reconnectAttempts s)
            then (s\<lparr>reconnectAttempts := Suc (reconnectAttempts s), client := Some (client_end c)\<rparr>, [])
            else (s\<lparr>reconnectAttempts := Suc (reconnectAttempts s)\<rparr>, []))"
  using assms by (simp add: on_reconnect_def client_call_def)

lemma run_callback_frame:
  "run_callback r res s = (s', out) \<Longrightarrow>
     client s' = client s \<and> isConnected s' = isConnected s \<and>
     reconnectAttempts s' = reconnectAttempts s \<and> maxReconnectAttempts s' = maxReconnectAttempts s \<and>
     (distinct (subscriptions s) \<longrightarrow> distinct (subscriptions s'))"
  by (auto simp: run_callback_def subscribe_cb_def unsubscribe_cb_def createQueue_cb_def
      split: client_req.splits sub_origin.splits sum.splits)

lemma on_ack_inv: "on_ack i res s = (s', out) \<Longrightarrow> service_inv opts s \<Longrightarrow> service_inv opts s'"
  by (auto simp: on_ack_def service_inv_def split: option.splits if_splits dest!: run_callback_frame)

lemma disconnect_inv: "service_inv opts s \<Longrightarrow> service_inv opts (disconnect s)"
  by (auto simp: disconnect_def service_inv_def client_end_def)

lemma service_inv_start:
  "connect env rnd None MQTTService_new = Inr s \<Longrightarrow> service_inv (connect_options_of env rnd) s"
  by (auto simp: connect_def MQTTService_new_def service_inv_def)

lemma client_event_inv:
  assumes inv: "service_inv opts s" and c: "client s = Some c"
    and em: "client_emits (options c) (link c) e l"
    and h: "handle_event p e (set_link l s) = (s', evs)"
  shows "service_inv opts s'"
  using em
proof cases
  case connack
  let ?s1 = "(set_link l s)\<lparr>isConnected := True, reconnectAttempts := 0\<rparr>"
  from c obtain s2 where "on_connect (set_link l s) = (s2, [EvConnected])" and o: "only_outgoing ?s1 s2"
    using on_connect_shape [of "set_link l s"] by auto
  moreover have "service_inv opts ?s1"
    using inv c connack by (auto simp: service_inv_def)
  ultimately show ?thesis using h connack by (auto intro: only_outgoing_inv)
next
  case reconnect
  with inv c have "reconnectAttempts s \<le> maxReconnectAttempts s"
    by (auto simp: service_inv_def)
  with inv c h reconnect show ?thesis
    by (auto simp: service_inv_def on_reconnect_shape client_end_def split: if_splits)
qed (use inv c h in \<open>auto simp: service_inv_def on_disconnect_def on_offline_def on_error_def on_message_def Let_def\<close>)

lemma sys_step_inv: "sys_step p s evs s' \<Longrightarrow> service_inv opts s \<Longrightarrow> service_inv opts s'"
proof (induction rule: sys_step.induct)
  case (client_event s c e l s' evs)
  then show ?case by (blast intro: client_event_inv)
next
  case (broker_ack s c i res s' out)
  then show ?case by (blast intro: on_ack_inv)
qed (blast intro: only_outgoing_inv disconnect_inv dest: queue_only)+

lemma reachable_inv: "reachable p env rnd s \<Longrightarrow> service_inv (connect_options_of env rnd) s"
proof (induction rule: reachable.induct)
  case (start s)
  then show ?case by (rule service_inv_start)
next
  case (step s evs s')
  then show ?case by (blast intro: sys_step_inv)
qed

subsection \<open>Building runs\<close>

text \<open>
  Lemmas that extend a run by named events, so that concrete reachable states can be
  exhibited: the first connection, the first loss of the link, and a number of failed
  reconnection attempts.
\<close>

lemma reachable_event:
  "reachable p env rnd s \<Longrightarrow> client s = Some c \<Longrightarrow> client_emits (options c) (link c) e l \<Longrightarrow>
   handle_event p e (set_link l s) = (s', evs) \<Longrightarrow> reachable p env rnd s'"
  by (blast intro: reachable.step sys_step.client_event)

lemma set_link_same [simp]: "client s = Some c \<Longrightarrow> link c = l \<Longrightarrow> set_link l s = s"
  by (cases s) (simp add: set_link_def)

lemma set_link_set_link [simp]: "set_link l (set_link l' s) = set_link l s"
  by (simp add: set_link_def option.map_comp comp_def)

lemma reachable_reconnect_cycles:
  assumes r: "reachable p env rnd s" and c: "client s = Some c" and off: "link c = Offline"
  shows "reconnectAttempts s + n \<le> maxReconnectAttempts s \<Longrightarrow>
         reachable p env rnd (s\<lparr>reconnectAttempts := reconnectAttempts s + n\<rparr>)"
proof (induction n)
  case 0
  with r show ?case by simp
next
  case (Suc n)
  let ?s = "s\<lparr>reconnectAttempts := reconnectAttempts s + n\<rparr>"
  let ?s1 = "set_link Reconnecting ?s\<lparr>reconnectAttempts := reconnectAttempts s + Suc n\<rparr>"
  from Suc have r1: "reachable p env rnd ?s" by simp
  have "client_emits (options c) (link c) CReconnect Reconnecting"
    using off by (simp add: client_emits.reconnect)
  moreover have "handle_event p CReconnect (set_link Reconnecting ?s) = (?s1, [])"
    using Suc.prems c by (simp add: on_reconnect_def set_link_def)
  ultimately have r2: "reachable p env rnd ?s1"
    using r1 c by (auto intro: reachable_event)
  have "client ?s1 = Some (c\<lparr>link := Reconnecting\<rparr>)"
    using c by (simp add: set_link_def)
  moreover have "client_emits (options c) Reconnecting CClose Offline"
    by (rule client_emits.attempt_failed)
  moreover have "handle_event p CClose (set_link Offline ?s1) = (set_link Offline ?s1, [])"
    by simp
  moreover have "set_link Offline ?s1 = s\<lparr>reconnectAttempts := reconnectAttempts s + Suc n\<rparr>"
    using c off by (cases s) (simp add: set_link_def)
  ultimately show ?case
    using r2 reachable_event [of p env rnd ?s1 "c\<lparr>link := Reconnecting\<rparr>" CClose Offline] by simp
qed

subsection \<open>Reconnection can succeed\<close>

lemma sys_reach_step: "sys_step p s evs s' \<Longrightarrow> sys_reach p s' s'' \<Longrightarrow> sys_reach p s s''"
  unfolding sys_reach_def by (rule converse_rtranclp_into_rtranclp) blast+

lemma sys_reach_one: "sys_step p s evs s' \<Longrightarrow> sys_reach p s s'"
  unfolding sys_reach_def by (rule r_into_rtranclp) blast

lemma connack_step:
  assumes "client s = Some c" and "link c = Connecting \<or> link c = Reconnecting"
  shows "\<exists>s'. sys_step p s [EvConnected] s' \<and> isConnected s' \<and> reconnectAttempts s' = 0"
proof -
  from assms(1) have "client (set_link Online s) \<noteq> None" by (simp add: set_link_def)
  then obtain s2 where s2: "on_connect (set_link Online s) = (s2, [EvConnected])"
    and o: "only_outgoing ((set_link Online s)\<lparr>isConnected := True, reconnectAttempts := 0\<rparr>) s2"
    using on_connect_shape by blast
  have "sys_step p s [EvConnected] s2"
    using assms s2 by (auto intro: sys_step.client_event client_emits.connack)
  with o show ?thesis by (auto simp: only_outgoing_def)
qed

lemma reconnect_step:
  assumes "client s = Some c" and "link c = Offline" and "reconnectAttempts s < maxReconnectAttempts s"
  shows "sys_step p s [] ((set_link Reconnecting s)\<lparr>reconnectAttempts := Suc (reconnectAttempts s)\<rparr>)"
proof (rule sys_step.client_event)
  show "client s = Some c" by (rule assms(1))
  show "client_emits (options c) (link c) CReconnect Reconnecting"
    using assms(2) by (simp add: client_emits.reconnect)
  show "handle_event p CReconnect (set_link Reconnecting s) =
          ((set_link Reconnecting s)\<lparr>reconnectAttempts := Suc (reconnectAttempts s)\<rparr>, [])"
    using assms by (simp add: on_reconnect_def set_link_def)
qed

lemma offline_step:
  assumes "client s = Some c" and "link c = Connecting \<or> link c = Online" and "0 < reconnectPeriod (options c)"
  shows "sys_step p s [EvOffline] ((set_link Offline s)\<lparr>isConnected := False\<rparr>)"
proof (rule sys_step.client_event)
  show "client s = Some c" by (rule assms(1))
  show "client_emits (options c) (link c) COffline Offline"
    using assms(2,3) by (auto intro: client_emits.link_lost)
  show "handle_event p COffline (set_link Offline s) = ((set_link Offline s)\<lparr>isConnected := False\<rparr>, [EvOffline])"
    by (simp add: on_offline_def)
qed

lemma connected_from_offline:
  assumes "client s = Some c" and "link c = Offline" and "reconnectAttempts s < maxReconnectAttempts s"
  shows "\<exists>s'. sys_reach p s s' \<and> isConnected s' \<and> reconnectAttempts s' = 0"
proof -
  let ?s1 = "(set_link Reconnecting s)\<lparr>reconnectAttempts := Suc (reconnectAttempts s)\<rparr>"
  have st: "sys_step p s [] ?s1" by (rule reconnect_step [OF assms])
  have "client ?s1 = Some (c\<lparr>link := Reconnecting\<rparr>)" using assms(1) by (simp add: set_link_def)
  then have "\<exists>s'. sys_step p ?s1 [EvConnected] s' \<and> isConnected s' \<and> reconnectAttempts s' = 0"
    by (rule connack_step) simp
  then obtain s' where "sys_step p ?s1 [EvConnected] s'" "isConnected s'" "reconnectAttempts s' = 0"
    by blast
  with st show ?thesis
    by (blast intro: sys_reach_step sys_reach_one)
qed

end
