(* ===== verification/Api.thy ===== *)
theory Api
  imports Service
begin

text \<open>
  What the two controllers of \<open>src/controllers/\<close> share. A request body is the JavaScript
  value that \<open>express.json\<close> produced; destructuring it (\<open>const {a} = req.body\<close>) throws
  a \<open>TypeError\<close> on \<open>null\<close> and \<open>undefined\<close> and reads \<open>undefined\<close> for a missing
  property; with duplicate keys the last one counts, as in \<open>JSON.parse\<close>. A response is a
  status code and the JSON body passed to \<open>res.json\<close>. A handler that awaits a promise of
  the service is given the broker's answer to that request as an argument: the await
  queues the request (\<open>createQueue\<close>, \<open>publish\<close>) and the library then runs its callback
  (\<open>on_ack\<close> on the request just queued); the answer is assumed to arrive before any other
  event, which the single-threaded handler cannot observe otherwise.
\<close>

subsection \<open>JavaScript values in request bodies\<close>

definition js_destructure :: "jsval \<Rightarrow> js_error + jsval" where
  "js_destructure v =
     (case v of
        JUndefined \<Rightarrow> Inl (TypeError ''Cannot destructure 'undefined' as it is undefined.'')
      | JNull \<Rightarrow> Inl (TypeError ''Cannot destructure 'null' as it is null.'')
      | _ \<Rightarrow> Inr v)"

definition js_get :: "jsval \<Rightarrow> string \<Rightarrow> jsval" where
  "js_get v k = (case v of JObject kvs \<Rightarrow> (case map_of (rev kvs) k of Some x \<Rightarrow> x | None \<Rightarrow> JUndefined) | _ \<Rightarrow> JUndefined)"

text \<open>A destructuring default \<open>{a = d}\<close> applies when the property is \<open>undefined\<close>.\<close>

definition js_default :: "jsval \<Rightarrow> jsval \<Rightarrow> jsval" where
  "js_default v d = (if v = JUndefined then d else v)"

text \<open>\<open>ToBoolean\<close>: \<open>undefined\<close>, \<open>null\<close>, \<open>false\<close>, \<open>0\<close> and \<open>""\<close> are falsy.\<close>

fun js_truthy :: "jsval \<Rightarrow> bool" where
  "js_truthy JUndefined = False"
| "js_truthy JNull = False"
| "js_truthy (JBool b) = b"
| "js_truthy (JNumber n) = (n \<noteq> 0)"
| "js_truthy (JString s) = (s \<noteq> [])"
| "js_truthy (JArray vs) = True"
| "js_truthy (JObject kvs) = True"

text \<open>\<open>ToString\<close>, used by template literals and by \<open>RegExp.prototype.test\<close>.\<close>

fun js_String :: "jsval \<Rightarrow> string" where
  "js_String JUndefined = ''undefined''"
| "js_String JNull = ''null''"
| "js_String (JBool b) = (if b then ''true'' else ''false'')"
| "js_String (JNumber n) = int_to_string n"
| "js_String (JString s) = s"
| "js_String (JArray vs) = js_join CHR '','' (map (\<lambda>v. if v = JUndefined \<or> v = JNull then [] else json_text v) vs)"
| "js_String (JObject kvs) = ''[object Object]''"

fun js_message :: "js_error \<Rightarrow> string" where
  "js_message (TypeError m) = m"
| "js_message (Error m) = m"

subsection \<open>Responses\<close>

datatype http_response = Response nat jsval

fun status_of :: "http_response \<Rightarrow> nat" where
  "status_of (Response c b) = c"

fun body_of :: "http_response \<Rightarrow> jsval" where
  "body_of (Response c b) = b"

definition error_response :: "nat \<Rightarrow> string \<Rightarrow> http_response" where
  "error_response code msg = Response code (JObject [(''success'', JBool False), (''error'', JString msg)])"

definition squoted :: "string \<Rightarrow> string" where
  "squoted s = CHR 0x27 # s @ [CHR 0x27]"

definition granted_json :: "granted \<Rightarrow> jsval" where
  "granted_json g = JArray (map (\<lambda>tq. JObject [(''topic'', JString (fst tq)), (''qos'', JNumber (int (snd tq)))]) g)"

definition failure_response :: "nat \<Rightarrow> string \<Rightarrow> js_error \<Rightarrow> http_response" where
  "failure_response code msg e =
     Response code (JObject [(''success'', JBool False), (''error'', JString msg),
                             (''details'', JString (js_message e))])"

text \<open>The \<open>success\<close> flag of a response body.\<close>

definition response_success :: "http_response \<Rightarrow> bool" where
  "response_success r = (js_get (body_of r) ''success'' = JBool True)"

subsection \<open>Awaiting a promise of the service\<close>

definition last_request :: "mqtt_service \<Rightarrow> nat" where
  "last_request s = (case client s of Some c \<Rightarrow> length (outgoing c) - 1 | None \<Rightarrow> 0)"

definition await_createQueue ::
  "topic \<Rightarrow> nat \<Rightarrow> bool \<Rightarrow> ack_result \<Rightarrow> mqtt_service \<Rightarrow> mqtt_service \<times> (js_error + granted)" where
  "await_createQueue queueName qos durable answer s =
     (case createQueue queueName qos durable s of
        Inl e \<Rightarrow> (s, Inl e)
      | Inr s1 \<Rightarrow>
          (case on_ack (last_request s1) answer s1 of
             (s2, ResolvedGranted g) \<Rightarrow> (s2, Inr g)
           | (s2, Rejected e) \<Rightarrow> (s2, Inl e)
           | (s2, _) \<Rightarrow> (s2, Inr [])))"

definition await_publish ::
  "topic \<Rightarrow> jsval \<Rightarrow> nat \<Rightarrow> bool \<Rightarrow> ack_result \<Rightarrow> mqtt_service \<Rightarrow> mqtt_service \<times> (js_error + unit)" where
  "await_publish topic message qos retain answer s =
     (case publish topic message qos retain s of
        Inl e \<Rightarrow> (s, Inl e)
      | Inr s1 \<Rightarrow>
          (case on_ack (last_request s1) answer s1 of
             (s2, Rejected e) \<Rightarrow> (s2, Inl e)
           | (s2, _) \<Rightarrow> (s2, Inr ())))"

subsection \<open>What an awaited request does\<close>

lemma createQueue_Inr:
  "isConnected s \<Longrightarrow> client s = Some c \<Longrightarrow>
   createQueue q qos d s = Inr (s\<lparr>client := Some (c\<lparr>outgoing := outgoing c @ [ReqSubscribe q qos FromCreateQueue]\<rparr>)\<rparr>)"
  by (simp add: createQueue_def client_call_def client_request_def)

lemma on_ack_last:
  "client s = Some c \<Longrightarrow>
   on_ack (length (outgoing c)) r (s\<lparr>client := Some (c\<lparr>outgoing := outgoing c @ [req]\<rparr>)\<rparr>) =
   run_callback req r s"
proof -
  assume c: "client s = Some c"
  have "drop_at (length (outgoing c)) (outgoing c @ [req]) = outgoing c"
    by (simp add: drop_at_def)
  with c show ?thesis
    by (cases s) (simp add: on_ack_def nth_append)
qed

lemma await_createQueue_eq:
  assumes "client s = Some c"
  shows "await_createQueue q qos d r s =
           (if \<not> isConnected s then (s, Inl not_connected)
            else case r of
                   Inl e \<Rightarrow> (s, Inl e)
                 | Inr g \<Rightarrow> (s\<lparr>subscriptions := js_set_add (subscriptions s) q\<rparr>, Inr g))"
proof (cases "isConnected s")
  case True
  with assms show ?thesis
    by (cases r) (simp_all add: await_createQueue_def createQueue_Inr last_request_def on_ack_last
        run_callback_def createQueue_cb_def)
qed (simp add: await_createQueue_def createQueue_def)

lemma publish_Inr:
  "isConnected s \<Longrightarrow> client s = Some c \<Longrightarrow> serialize_message m = Inr str \<Longrightarrow>
   publish t m qos rt s = Inr (s\<lparr>client := Some (c\<lparr>outgoing := outgoing c @ [ReqPublish t str qos rt]\<rparr>)\<rparr>)"
  by (simp add: publish_def client_call_def client_request_def)

lemma publish_serialize_error:
  "isConnected s \<Longrightarrow> serialize_message m = Inl e \<Longrightarrow> publish t m qos rt s = Inl e"
  by (simp add: publish_def)

lemma await_publish_eq:
  assumes "client s = Some c"
  shows "await_publish t m qos rt r s =
           (if \<not> isConnected s then (s, Inl not_connected)
            else case serialize_message m of
                   Inl e \<Rightarrow> (s, Inl e)
                 | Inr str \<Rightarrow> (case r of Inl e \<Rightarrow> (s, Inl e) | Inr g \<Rightarrow> (s, Inr ())))"
proof (cases "isConnected s")
  case True
  with assms show ?thesis
    by (cases r; cases "serialize_message m")
       (simp_all add: await_publish_def publish_serialize_error publish_Inr last_request_def on_ack_last
        run_callback_def publish_cb_def)
qed (simp add: await_publish_def publish_def)

subsection \<open>Reading request bodies\<close>

lemma js_destructure_Inr: "v \<noteq> JUndefined \<Longrightarrow> v \<noteq> JNull \<Longrightarrow> js_destructure v = Inr v"
  by (cases v) (simp_all add: js_destructure_def)

lemma js_destructure_JObject [simp]: "js_destructure (JObject kvs) = Inr (JObject kvs)"
  by (simp add: js_destructure_def)

lemma js_get_JObject [simp]:
  "js_get (JObject kvs) k = (case map_of (rev kvs) k of Some x \<Rightarrow> x | None \<Rightarrow> JUndefined)"
  by (simp add: js_get_def)

lemma error_response_status [simp]: "status_of (error_response c m) = c"
  by (simp add: error_response_def)

lemma unsubscribe_disconnected: "\<not> isConnected s \<Longrightarrow> unsubscribe t s = Inr (s, False)"
  by (simp add: unsubscribe_def)

end
