(* ===== verification/Devices.thy ===== *)
theory Devices
  imports Api Topics
begin

text \<open>
  The handlers of \<open>src/controllers/deviceController.js\<close>, each a function of the request
  (URL parameter, body), the timestamp \<open>now\<close> that \<open>new Date().toISOString()\<close> returns,
  the broker's answers to the requests it awaits, and the service state; each returns the
  new service state and the response. The outer \<open>try/catch\<close> of every handler is the
  branch on \<open>js_destructure\<close> of the body (the only statement before the inner
  \<open>try\<close> that can throw). \<open>bulkAddDevices\<close> also returns the number of
  \<open>setTimeout(resolve, 100)\<close> pauses it makes.
\<close>

subsection \<open>addDevice (lines 7--109)\<close>

definition queue_result :: "topic \<Rightarrow> string \<Rightarrow> granted \<Rightarrow> jsval" where
  "queue_result queue qtype g =
     JObject [(''queue'', JString queue), (''type'', JString qtype), (''status'', JString ''created''),
              (''result'', granted_json g)]"

definition device_record :: "string \<Rightarrow> jsval \<Rightarrow> topic \<Rightarrow> topic \<Rightarrow> jsval \<Rightarrow> jsval" where
  "device_record now deviceId inQueue outQueue deviceInfo =
     JObject [(''deviceId'', deviceId), (''inQueue'', JString inQueue), (''outQueue'', JString outQueue),
              (''deviceInfo'', deviceInfo), (''status'', JString ''active''), (''createdAt'', JString now),
              (''lastSeen'', JNull), (''queuesCreated'', JBool True)]"

definition addDevice ::
  "string \<Rightarrow> jsval \<Rightarrow> ack_result \<Rightarrow> ack_result \<Rightarrow> mqtt_service \<Rightarrow> mqtt_service \<times> http_response" where
  "addDevice now body answer_in answer_out s =
     (case js_destructure body of
        Inl e \<Rightarrow> (s, failure_response 500 ''Failed to add device'' e)
      | Inr b \<Rightarrow>
     (let deviceId = js_get b ''deviceId'';
          deviceInfo = js_default (js_get b ''deviceInfo'') (JObject [])
      in if \<not> js_truthy deviceId then (s, error_response 400 ''Device ID is required'')
      else if \<not> valid_device_id (js_String deviceId)
      then (s, error_response 400 ''Device ID can only contain letters, numbers, hyphens, and underscores'')
      else
        (let inQueue = inQueue_name (js_String deviceId);
             outQueue = outQueue_name (js_String deviceId)
         in case await_createQueue inQueue 1 True answer_in s of
              (s1, Inl queueError) \<Rightarrow>
                (s1, Response 500 (JObject [(''success'', JBool False),
                        (''error'', JString ''Failed to create device queues''),
                        (''details'', JString (js_message queueError)), (''partialResults'', JArray [])]))
            | (s1, Inr inQueueResult) \<Rightarrow>
                (case await_createQueue outQueue 1 True answer_out s1 of
                   (s2, Inl queueError) \<Rightarrow>
                     (s2, Response 500 (JObject [(''success'', JBool False),
                        (''error'', JString ''Failed to create device queues''),
                        (''details'', JString (js_message queueError)),
                        (''partialResults'', JArray [queue_result inQueue ''in'' inQueueResult])]))
                 | (s2, Inr outQueueResult) \<Rightarrow>
                     (s2, Response 200 (JObject [(''success'', JBool True),
                        (''message'', JString (''Device '' @ squoted (js_String deviceId) @ '' added successfully'')),
                        (''data'', JObject [(''device'', device_record now deviceId inQueue outQueue deviceInfo),
                           (''queuesCreated'', JArray [queue_result inQueue ''in'' inQueueResult,
                                                      queue_result outQueue ''out'' outQueueResult]),
                           (''timestamp'', JString now)])]))))))"

subsection \<open>updateDevice and retireDevice (lines 114--218)\<close>

definition updateDevice :: "string \<Rightarrow> string \<Rightarrow> jsval \<Rightarrow> http_response" where
  "updateDevice now deviceId body =
     (case js_destructure body of
        Inl e \<Rightarrow> failure_response 500 ''Failed to update device'' e
      | Inr b \<Rightarrow>
          if deviceId = [] then error_response 400 ''Device ID is required''
          else Response 200 (JObject [(''success'', JBool True),
                 (''message'', JString (''Device '' @ squoted deviceId @ '' updated successfully'')),
                 (''data'', JObject [(''device'', JObject [(''deviceId'', JString deviceId),
                      (''deviceInfo'', js_get b ''deviceInfo''), (''updatedAt'', JString now)]),
                    (''timestamp'', JString now)])]))"

definition final_notification :: "string \<Rightarrow> string \<Rightarrow> string \<Rightarrow> jsval \<Rightarrow> string \<Rightarrow> jsval" where
  "final_notification kind deviceId text reason now =
     JObject [(''type'', JString kind), (''deviceId'', JString deviceId), (''message'', JString text),
              (''reason'', reason), (''timestamp'', JString now), (''finalMessage'', JBool True)]"

definition retireDevice ::
  "string \<Rightarrow> string \<Rightarrow> jsval \<Rightarrow> ack_result \<Rightarrow> mqtt_service \<Rightarrow> mqtt_service \<times> http_response" where
  "retireDevice now deviceId body answer s =
     (case js_destructure body of
        Inl e \<Rightarrow> (s, failure_response 500 ''Failed to retire device'' e)
      | Inr b \<Rightarrow>
     (let reason = js_default (js_get b ''reason'') (JString ''Manual retirement'')
      in if deviceId = [] then (s, error_response 400 ''Device ID is required'')
      else
        (let notification = final_notification ''device_retirement'' deviceId
                              ''This device has been retired from MDM management'' reason now;
             (s1, published) = await_publish (outQueue_name deviceId) notification 1 False answer s
         in (s1, Response 200 (JObject [(''success'', JBool True),
                (''message'', JString (''Device '' @ squoted deviceId @ '' retired successfully'')),
                (''data'', JObject [(''device'', JObject [(''deviceId'', JString deviceId),
                     (''status'', JString ''retired''), (''reason'', reason), (''retiredAt'', JString now),
                     (''queuesPreserved'', JBool True)]),
                   (''timestamp'', JString now)])])))))"

subsection \<open>deleteDevice (lines 223--327)\<close>

text \<open>
  With \<open>removeQueues\<close> the handler calls \<open>unsubscribe\<close> on both queues and ignores the
  boolean each call returns; only an exception reaches the \<open>catch\<close>.
\<close>

definition queue_operation :: "topic \<Rightarrow> string \<Rightarrow> jsval" where
  "queue_operation queue status =
     JObject [(''queue'', JString queue), (''action'', JString ''unsubscribed''), (''status'', JString status)]"

definition remove_queues :: "topic \<Rightarrow> topic \<Rightarrow> mqtt_service \<Rightarrow> mqtt_service \<times> jsval list" where
  "remove_queues inQueue outQueue s =
     (case unsubscribe inQueue s of
        Inl e \<Rightarrow> (s, [JObject [(''queue'', JString inQueue), (''action'', JString ''unsubscribed''),
                               (''status'', JString ''failed''), (''error'', JString (js_message e))],
                      JObject [(''queue'', JString outQueue), (''action'', JString ''unsubscribed''),
                               (''status'', JString ''failed''), (''error'', JString (js_message e))]])
      | Inr (s1, ok1) \<Rightarrow>
          (case unsubscribe outQueue s1 of
             Inl e \<Rightarrow> (s1, [JObject [(''queue'', JString inQueue), (''action'', JString ''unsubscribed''),
                                     (''status'', JString ''failed''), (''error'', JString (js_message e))],
                            JObject [(''queue'', JString outQueue), (''action'', JString ''unsubscribed''),
                                     (''status'', JString ''failed''), (''error'', JString (js_message e))]])
           | Inr (s2, ok2) \<Rightarrow> (s2, [queue_operation inQueue ''success'', queue_operation outQueue ''success''])))"

definition deleteDevice ::
  "string \<Rightarrow> string \<Rightarrow> jsval \<Rightarrow> ack_result \<Rightarrow> mqtt_service \<Rightarrow> mqtt_service \<times> http_response" where
  "deleteDevice now deviceId body answer s =
     (case js_destructure body of
        Inl e \<Rightarrow> (s, failure_response 500 ''Failed to delete device'' e)
      | Inr b \<Rightarrow>
     (let removeQueues = js_default (js_get b ''removeQueues'') (JBool False);
          reason = js_default (js_get b ''reason'') (JString ''Manual deletion'')
      in if deviceId = [] then (s, error_response 400 ''Device ID is required'')
      else
        (let inQueue = inQueue_name deviceId;
             outQueue = outQueue_name deviceId;
             s1 = (if \<not> js_truthy removeQueues
                   then fst (await_publish outQueue
                               (final_notification ''device_deletion'' deviceId
                                  ''This device has been deleted from MDM management'' reason now)
                               1 False answer s)
                   else s);
             (s2, queueRemovalResults) = (if js_truthy removeQueues then remove_queues inQueue outQueue s1 else (s1, []))
         in (s2, Response 200 (JObject [(''success'', JBool True),
                (''message'', JString (''Device '' @ squoted deviceId @ '' deleted successfully'')),
                (''data'', JObject [(''device'', JObject [(''deviceId'', JString deviceId),
                     (''status'', JString ''deleted''), (''reason'', reason), (''deletedAt'', JString now),
                     (''queuesRemoved'', removeQueues), (''queueOperations'', JArray queueRemovalResults)]),
                   (''timestamp'', JString now)])])))))"

subsection \<open>getDevice (lines 332--387)\<close>

definition getDevice :: "string \<Rightarrow> string \<Rightarrow> mqtt_service \<Rightarrow> http_response" where
  "getDevice now deviceId s =
     (if deviceId = [] then error_response 400 ''Device ID is required''
      else
        (let inQueue = inQueue_name deviceId;
             outQueue = outQueue_name deviceId;
             connectionStatus = getConnectionStatus s;
             hasInQueue = inQueue \<in> set (st_subscriptions connectionStatus);
             hasOutQueue = outQueue \<in> set (st_subscriptions connectionStatus)
         in Response 200 (JObject [(''success'', JBool True),
              (''data'', JObject [(''device'', JObject [(''deviceId'', JString deviceId),
                   (''inQueue'', JString inQueue), (''outQueue'', JString outQueue),
                   (''queues'', JObject [
                      (''inQueue'', JObject [(''name'', JString inQueue), (''subscribed'', JBool hasInQueue),
                                            (''purpose'', JString ''Device to Server communication'')]),
                      (''outQueue'', JObject [(''name'', JString outQueue), (''subscribed'', JBool hasOutQueue),
                                             (''purpose'', JString ''Server to Device communication'')])]),
                   (''status'', JString (if hasInQueue \<and> hasOutQueue then ''active'' else ''partial'')),
                   (''lastChecked'', JString now)]),
                 (''timestamp'', JString now)])])))"

subsection \<open>listDevices response (lines 392--454)\<close>

text \<open>
  The listing itself is \<open>listDevices\<close> of \<open>Topics\<close>; the handler spreads each entry
  (\<open>...device\<close>) into the object it returns, with \<open>null\<close> for a missing queue.
\<close>

definition queue_field :: "topic option \<Rightarrow> jsval" where
  "queue_field q = (case q of Some t \<Rightarrow> JString t | None \<Rightarrow> JNull)"

definition device_summary_json :: "device_summary \<Rightarrow> jsval" where
  "device_summary_json d =
     JObject [(''deviceId'', JString (dev_id d)), (''inQueue'', queue_field (dev_inQueue d)),
              (''outQueue'', queue_field (dev_outQueue d)),
              (''status'', JString (if dev_status d = Active then ''active'' else ''partial'')),
              (''hasInQueue'', JBool (hasInQueue d)), (''hasOutQueue'', JBool (hasOutQueue d))]"

definition listDevices_handler :: "string \<Rightarrow> mqtt_service \<Rightarrow> http_response" where
  "listDevices_handler now s =
     (let connectionStatus = getConnectionStatus s;
          listing = listDevices (st_subscriptions connectionStatus)
      in Response 200 (JObject [(''success'', JBool True),
           (''data'', JObject [(''devices'', JArray (map device_summary_json (devices listing))),
              (''totalDevices'', JNumber (int (totalDevices listing))),
              (''activeDevices'', JNumber (int (activeDevices listing))),
              (''partialDevices'', JNumber (int (partialDevices listing))),
              (''timestamp'', JString now)])]))"

subsection \<open>sendCommandToDevice (lines 459--513)\<close>

definition command_qos :: "jsval \<Rightarrow> nat" where
  "command_qos priority =
     (if priority = JString ''high'' then 2 else if priority = JString ''normal'' then 1 else 0)"

text \<open>\<open>dateNow\<close> is \<open>Date.now()\<close>.\<close>

definition sendCommandToDevice ::
  "string \<Rightarrow> int \<Rightarrow> string \<Rightarrow> jsval \<Rightarrow> ack_result \<Rightarrow> mqtt_service \<Rightarrow> mqtt_service \<times> http_response" where
  "sendCommandToDevice now dateNow deviceId body answer s =
     (case js_destructure body of
        Inl e \<Rightarrow> (s, failure_response 500 ''Failed to send command to device'' e)
      | Inr b \<Rightarrow>
     (let command = js_get b ''command'';
          payload = js_default (js_get b ''payload'') (JObject []);
          priority = js_default (js_get b ''priority'') (JString ''normal'')
      in if deviceId = [] \<or> \<not> js_truthy command
      then (s, error_response 400 ''Device ID and command are required'')
      else
        (let outQueue = outQueue_name deviceId;
             commandId = ''cmd-'' @ int_to_string dateNow;
             commandMessage = JObject [(''type'', JString ''command''), (''command'', command),
                 (''deviceId'', JString deviceId), (''payload'', payload), (''priority'', priority),
                 (''commandId'', JString commandId), (''timestamp'', JString now), (''requiresAck'', JBool True)];
             qosLevel = command_qos priority
         in case await_publish outQueue commandMessage qosLevel False answer s of
              (s1, Inl e) \<Rightarrow> (s1, failure_response 500 ''Failed to send command to device'' e)
            | (s1, Inr u) \<Rightarrow>
                (s1, Response 200 (JObject [(''success'', JBool True),
                   (''message'', JString (''Command '' @ squoted (js_String command) @ '' sent to device '' @
                                          squoted deviceId)),
                   (''data'', JObject [(''deviceId'', JString deviceId), (''command'', command),
                      (''commandId'', JString commandId), (''queueUsed'', JString outQueue),
                      (''qos'', JNumber (int qosLevel)), (''timestamp'', JString now)])])))))"

subsection \<open>bulkAddDevices (lines 518--599)\<close>

text \<open>
  The loop over \<open>devices\<close>: an entry that is \<open>null\<close> or \<open>undefined\<close> makes the
  destructuring throw, which leaves the loop for the outer \<open>catch\<close>; an entry without
  identifier is recorded as failed and skips the pause (\<open>continue\<close>); any other entry
  awaits the two queues and then pauses. \<open>answers i\<close> are the broker's answers for the
  \<open>i\<close>-th entry.
\<close>

definition bulk_item :: "ack_result \<times> ack_result \<Rightarrow> jsval \<Rightarrow> jsval \<Rightarrow> mqtt_service \<Rightarrow> mqtt_service \<times> jsval" where
  "bulk_item answers deviceId deviceInfo s =
     (let inQueue = inQueue_name (js_String deviceId);
          outQueue = outQueue_name (js_String deviceId);
          failed = (\<lambda>e. JObject [(''deviceId'', deviceId), (''status'', JString ''failed''),
                                 (''error'', JString (js_message e))])
      in case await_createQueue inQueue 1 True (fst answers) s of
           (s1, Inl e) \<Rightarrow> (s1, failed e)
         | (s1, Inr g1) \<Rightarrow>
             (case await_createQueue outQueue 1 True (snd answers) s1 of
                (s2, Inl e) \<Rightarrow> (s2, failed e)
              | (s2, Inr g2) \<Rightarrow>
                  (s2, JObject [(''deviceId'', deviceId), (''status'', JString ''success''),
                                (''inQueue'', JString inQueue), (''outQueue'', JString outQueue),
                                (''deviceInfo'', deviceInfo)])))"

definition unknown_result :: jsval where
  "unknown_result =
     JObject [(''deviceId'', JString ''unknown''), (''status'', JString ''failed''),
              (''error'', JString ''Device ID is required'')]"

fun bulk_loop ::
  "(nat \<Rightarrow> ack_result \<times> ack_result) \<Rightarrow> nat \<Rightarrow> jsval list \<Rightarrow> mqtt_service \<Rightarrow>
   mqtt_service \<times> jsval list \<times> nat \<times> js_error option" where
  "bulk_loop answers i [] s = (s, [], 0, None)"
| "bulk_loop answers i (deviceData # rest) s =
     (case js_destructure deviceData of
        Inl e \<Rightarrow> (s, [], 0, Some e)
      | Inr b \<Rightarrow>
          (let deviceId = js_get b ''deviceId'';
               deviceInfo = js_default (js_get b ''deviceInfo'') (JObject [])
           in if \<not> js_truthy deviceId
              then (case bulk_loop answers (Suc i) rest s of
                      (s', results, pauses, thrown) \<Rightarrow> (s', unknown_result # results, pauses, thrown))
              else (case bulk_item (answers i) deviceId deviceInfo s of
                      (s1, r) \<Rightarrow>
                        (case bulk_loop answers (Suc i) rest s1 of
                           (s', results, pauses, thrown) \<Rightarrow> (s', r # results, Suc pauses, thrown)))))"

definition count_status :: "string \<Rightarrow> jsval list \<Rightarrow> nat" where
  "count_status st results = length (filter (\<lambda>r. js_get r ''status'' = JString st) results)"

definition bulkAddDevices ::
  "string \<Rightarrow> (nat \<Rightarrow> ack_result \<times> ack_result) \<Rightarrow> jsval \<Rightarrow> mqtt_service \<Rightarrow> mqtt_service \<times> http_response \<times> nat" where
  "bulkAddDevices now answers body s =
     (case js_destructure body of
        Inl e \<Rightarrow> (s, failure_response 500 ''Failed to bulk add devices'' e, 0)
      | Inr b \<Rightarrow>
          (case js_get b ''devices'' of
             JArray devs \<Rightarrow>
               if devs = [] then (s, error_response 400 ''Devices array is required and must not be empty'', 0)
               else
                 (case bulk_loop answers 0 devs s of
                    (s', results, pauses, Some e) \<Rightarrow> (s', failure_response 500 ''Failed to bulk add devices'' e, pauses)
                  | (s', results, pauses, None) \<Rightarrow>
                      (let successCount = count_status ''success'' results;
                           failureCount = count_status ''failed'' results
                       in (s', Response 200 (JObject [(''success'', JBool (0 < successCount)),
                              (''message'', JString (''Bulk device addition completed: '' @ nat_to_string successCount @
                                 '' successful, '' @ nat_to_string failureCount @ '' failed'')),
                              (''data'', JObject [(''results'', JArray results),
                                 (''summary'', JObject [(''total'', JNumber (int (length devs))),
                                    (''successful'', JNumber (int successCount)),
                                    (''failed'', JNumber (int failureCount))]),
                                 (''timestamp'', JString now)])]), pauses)))
           | _ \<Rightarrow> (s, error_response 400 ''Devices array is required and must not be empty'', 0)))"

subsection \<open>What the handlers do to the registry\<close>

lemma bulk_item_registers:
  assumes "client s = Some c" and "isConnected s"
  shows "subscriptions (fst (bulk_item (Inr g1, Inr g2) d di s)) =
           js_set_add (js_set_add (subscriptions s) (inQueue_name (js_String d))) (outQueue_name (js_String d))"
  using assms by (simp add: bulk_item_def Let_def await_createQueue_eq)

text \<open>The loop over a concatenation runs over the first part and, unless it threw, the rest.\<close>

lemma bulk_loop_append:
  "bulk_loop ans i (pre @ rest) s =
     (case bulk_loop ans i pre s of
        (s1, rs1, n1, Some e) \<Rightarrow> (s1, rs1, n1, Some e)
      | (s1, rs1, n1, None) \<Rightarrow>
          (case bulk_loop ans (i + length pre) rest s1 of (s2, rs2, n2, t) \<Rightarrow> (s2, rs1 @ rs2, n1 + n2, t)))"
proof (induction pre arbitrary: i s)
  case Nil
  then show ?case by (simp split: prod.splits)
next
  case (Cons x pre)
  show ?case
    by (simp add: Cons.IH Let_def split: sum.splits prod.splits option.splits)
qed

lemma bulk_loop_no_throw:
  "(\<forall>dd \<in> set devs. dd \<noteq> JUndefined \<and> dd \<noteq> JNull) \<Longrightarrow> bulk_loop ans i devs s = (s', rs, n, thr) \<Longrightarrow>
   thr = None \<and> length rs = length devs \<and> n = length (filter (\<lambda>dd. js_truthy (js_get dd ''deviceId'')) devs)"
proof (induction devs arbitrary: i s s' rs n)
  case Nil
  then show ?case by simp
next
  case (Cons x devs)
  then show ?case
    by (auto simp: js_destructure_Inr Let_def split: prod.splits if_splits)
qed

end
