(* ===== verification/MqttApi.thy ===== *)
theory MqttApi
  imports Api
begin

text \<open>
  The handlers of \<open>src/controllers/mqttController.js\<close>, in the style of \<open>Devices\<close>: a
  function of the request body, the timestamp \<open>now\<close>, the broker's answer to an awaited
  request and the service state, returning the new state and the response. The options
  object a handler passes to the service reaches \<open>mqtt.js\<close>, which reads its \<open>qos\<close>
  (\<open>0\<close> when absent) and \<open>retain\<close> fields: \<open>lib_qos\<close> below. A topic that is not a
  string is handed to the library as its \<open>String\<close> value. \<open>broadcastAlldevices\<close>
  destructures its body outside the \<open>try\<close>, so a \<open>null\<close> body reaches the error middleware
  of \<open>src/server.js\<close> (\<open>express_error\<close>); it does not await the promise of
  \<open>publish\<close>, whose rejection is returned as the third component (an unhandled rejection).
\<close>

subsection \<open>Shared pieces\<close>

text \<open>A property read \<open>v.k\<close>: a \<open>TypeError\<close> on \<open>null\<close> and \<open>undefined\<close>.\<close>

definition js_prop :: "jsval \<Rightarrow> string \<Rightarrow> js_error + jsval" where
  "js_prop v k =
     (case v of
        JUndefined \<Rightarrow> Inl (TypeError (''Cannot read properties of undefined (reading '' @ squoted k @ '')''))
      | JNull \<Rightarrow> Inl (TypeError (''Cannot read properties of null (reading '' @ squoted k @ '')''))
      | _ \<Rightarrow> Inr (js_get v k))"

text \<open>The QoS \<open>mqtt.js\<close> takes from an options object (its default is \<open>0\<close>).\<close>

definition lib_qos :: "jsval \<Rightarrow> nat" where
  "lib_qos opts = (case js_get opts ''qos'' of JNumber n \<Rightarrow> nat n | _ \<Rightarrow> 0)"

definition express_error :: "js_error \<Rightarrow> http_response" where
  "express_error e =
     Response 500 (JObject [(''error'', JString ''Internal server error''), (''message'', JString (js_message e))])"

definition status_json :: "connection_status \<Rightarrow> jsval" where
  "status_json st =
     JObject [(''connected'', JBool (st_connected st)),
              (''subscriptions'', JArray (map JString (st_subscriptions st))),
              (''reconnectAttempts'', JNumber (int (st_reconnectAttempts st)))]"

subsection \<open>getStatus and getSubscriptions (lines 7--22, 162--180)\<close>

definition getStatus :: "string \<Rightarrow> mqtt_service \<Rightarrow> http_response" where
  "getStatus now s =
     (let status = getConnectionStatus s
      in Response 200 (JObject [(''success'', JBool True), (''data'', status_json status),
                                (''timestamp'', JString now)]))"

definition getSubscriptions :: "string \<Rightarrow> mqtt_service \<Rightarrow> http_response" where
  "getSubscriptions now s =
     (let status = getConnectionStatus s
      in Response 200 (JObject [(''success'', JBool True),
            (''data'', JObject [(''subscriptions'', JArray (map JString (st_subscriptions status))),
                               (''count'', JNumber (int (length (st_subscriptions status))))]),
            (''timestamp'', JString now)]))"

subsection \<open>broadcastAlldevices (lines 24--41)\<close>

text \<open>
  The promise \<open>publish\<close> returns is put in the response as \<open>data\<close>, which
  \<open>JSON.stringify\<close> prints as \<open>{}\<close>; \<open>publish\<close> never throws, so the \<open>catch\<close> is dead.
\<close>

definition broadcastAlldevices ::
  "string \<Rightarrow> jsval \<Rightarrow> mqtt_service \<Rightarrow> mqtt_service \<times> http_response \<times> js_error option" where
  "broadcastAlldevices now body s =
     (case js_destructure body of
        Inl e \<Rightarrow> (s, express_error e, None)
      | Inr b \<Rightarrow>
          (let message = js_get b ''message'';
               (s1, rejection) = (case publish ''broadcast-out'' message 1 False s of
                                    Inl e \<Rightarrow> (s, Some e)
                                  | Inr s1 \<Rightarrow> (s1, None))
           in (s1, Response 200 (JObject [(''success'', JBool True), (''data'', JObject []),
                                          (''timestamp'', JString now)]), rejection)))"

subsection \<open>publishMessage (lines 45--76)\<close>

definition publishMessage :: "string \<Rightarrow> jsval \<Rightarrow> ack_result \<Rightarrow> mqtt_service \<Rightarrow> mqtt_service \<times> http_response" where
  "publishMessage now body answer s =
     (case js_destructure body of
        Inl e \<Rightarrow> (s, failure_response 500 ''Failed to publish message'' e)
      | Inr b \<Rightarrow>
     (let topic = js_get b ''topic'';
          message = js_get b ''message'';
          options = js_default (js_get b ''options'') (JObject [(''qos'', JNumber 1), (''retain'', JBool False)])
      in if \<not> js_truthy topic \<or> message = JUndefined
         then (s, error_response 400 ''Topic and message are required'')
         else
           (case await_publish (js_String topic) message (lib_qos options) (js_truthy (js_get options ''retain'')) answer s of
              (s1, Inl e) \<Rightarrow> (s1, failure_response 500 ''Failed to publish message'' e)
            | (s1, Inr u) \<Rightarrow>
                (s1, Response 200 (JObject [(''success'', JBool True),
                       (''message'', JString ''Message published successfully''),
                       (''data'', JObject [(''topic'', topic),
                          (''messageSize'', JNumber (int (length (json_text message)))),
                          (''options'', options)]),
                       (''timestamp'', JString now)])))))"

subsection \<open>subscribeToTopic and unsubscribeFromTopic (lines 81--157)\<close>

definition subscribeToTopic :: "string \<Rightarrow> jsval \<Rightarrow> mqtt_service \<Rightarrow> mqtt_service \<times> http_response" where
  "subscribeToTopic now body s =
     (case js_destructure body of
        Inl e \<Rightarrow> (s, failure_response 500 ''Failed to subscribe to topic'' e)
      | Inr b \<Rightarrow>
     (let topic = js_get b ''topic'';
          options = js_default (js_get b ''options'') (JObject [(''qos'', JNumber 1)])
      in if \<not> js_truthy topic then (s, error_response 400 ''Topic is required'')
         else
           (case subscribe (js_String topic) (lib_qos options) s of
              Inl e \<Rightarrow> (s, failure_response 500 ''Failed to subscribe to topic'' e)
            | Inr (s1, success) \<Rightarrow>
                if success
                then (s1, Response 200 (JObject [(''success'', JBool True),
                        (''message'', JString ''Subscribed to topic successfully''),
                        (''data'', JObject [(''topic'', topic), (''options'', options)]),
                        (''timestamp'', JString now)]))
                else (s1, error_response 400 ''Failed to subscribe to topic (client not connected)''))))"

definition unsubscribeFromTopic :: "string \<Rightarrow> jsval \<Rightarrow> mqtt_service \<Rightarrow> mqtt_service \<times> http_response" where
  "unsubscribeFromTopic now body s =
     (case js_destructure body of
        Inl e \<Rightarrow> (s, failure_response 500 ''Failed to unsubscribe from topic'' e)
      | Inr b \<Rightarrow>
     (let topic = js_get b ''topic''
      in if \<not> js_truthy topic then (s, error_response 400 ''Topic is required'')
         else
           (case unsubscribe (js_String topic) s of
              Inl e \<Rightarrow> (s, failure_response 500 ''Failed to unsubscribe from topic'' e)
            | Inr (s1, success) \<Rightarrow>
                if success
                then (s1, Response 200 (JObject [(''success'', JBool True),
                        (''message'', JString ''Unsubscribed from topic successfully''),
                        (''data'', JObject [(''topic'', topic)]), (''timestamp'', JString now)]))
                else (s1, error_response 400 ''Failed to unsubscribe from topic (client not connected)''))))"

subsection \<open>createQueue (lines 185--252)\<close>

text \<open>
  \<open>validatedOptions.qos\<close> is \<open>options.qos || 1\<close>; the check \<open>[0, 1, 2].includes\<close>
  compares with \<open>SameValueZero\<close>. The \<open>catch\<close> answers 503 to the error the service raises
  when the client is not connected and 500 to any other.
\<close>

definition createQueue_catch :: "js_error \<Rightarrow> http_response" where
  "createQueue_catch e =
     (if js_message e = ''MQTT client not connected''
      then Response 503 (JObject [(''success'', JBool False), (''error'', JString ''MQTT service unavailable''),
                                  (''details'', JString ''MQTT client is not connected to the broker'')])
      else failure_response 500 ''Failed to create queue'' e)"

definition createQueue_handler :: "string \<Rightarrow> jsval \<Rightarrow> ack_result \<Rightarrow> mqtt_service \<Rightarrow> mqtt_service \<times> http_response" where
  "createQueue_handler now body answer s =
     (case js_destructure body of
        Inl e \<Rightarrow> (s, createQueue_catch e)
      | Inr b \<Rightarrow>
     (let queueName = js_get b ''queueName'';
          options = js_default (js_get b ''options'') (JObject [(''qos'', JNumber 1), (''durable'', JBool True)])
      in if \<not> js_truthy queueName then (s, error_response 400 ''Queue name is required'')
         else (case queueName of
           JString q \<Rightarrow>
             if js_trim q = [] then (s, error_response 400 ''Queue name must be a non-empty string'')
             else (case js_prop options ''qos'' of
               Inl e \<Rightarrow> (s, createQueue_catch e)
             | Inr qv \<Rightarrow> (case js_prop options ''durable'' of
               Inl e \<Rightarrow> (s, createQueue_catch e)
             | Inr dv \<Rightarrow>
                 (let qos = (if js_truthy qv then qv else JNumber 1);
                      durable = (if dv \<noteq> JUndefined then dv else JBool True);
                      validatedOptions = JObject [(''qos'', qos), (''durable'', durable)]
                  in if qos \<notin> {JNumber 0, JNumber 1, JNumber 2}
                     then (s, error_response 400 ''QoS must be 0, 1, or 2'')
                     else (case await_createQueue q (lib_qos validatedOptions) (js_truthy durable) answer s of
                       (s1, Inl e) \<Rightarrow> (s1, createQueue_catch e)
                     | (s1, Inr g) \<Rightarrow>
                         (s1, Response 200 (JObject [(''success'', JBool True),
                            (''message'', JString (''Queue '' @ squoted q @ '' created successfully'')),
                            (''data'', JObject [(''queueName'', queueName), (''options'', validatedOptions),
                               (''granted'', granted_json g), (''timestamp'', JString now)])]))))))
         | _ \<Rightarrow> (s, error_response 400 ''Queue name must be a non-empty string''))))"

lemma createQueue_catch_status: "status_of (createQueue_catch e) \<noteq> 200"
  by (simp add: createQueue_catch_def failure_response_def)

end
