(* ===== verification/Http.thy ===== *)
theory Http
  imports Devices MqttApi JsonParse
begin

text \<open>
  The HTTP side of the gateway: the request pipeline of \<open>src/server.js\<close> (the body
  parser \<open>express.json\<close>, the routers mounted under \<open>/api\<close>, the error middleware and the
  404 handler) and the route tables of \<open>src/routes/\<close>. The route tables are data, as in
  the source; \<open>dispatch\<close> is Express 4's matching of a request against them: layers are
  tried in order, a route matches when its method and every path segment match (literal
  segments compare case-insensitively, a parameter \<open>:name\<close> matches one non-empty
  segment, a trailing slash is ignored), a mount strips its prefix and tries its own
  layers. \<open>JSON_parse\<close> is \<open>JSON.parse\<close>, returning V8's error message or the value.
  Helmet, CORS and the request logger add headers and log lines only and are not
  modelled; neither is a \<open>HEAD\<close> response's omitted body. The section on the
  flattened tables gives the reference that \<open>dispatch\<close> on the mounted tables is
  equivalent to: first-match dispatch on the full paths (\<open>api_table\<close>).
\<close>

section \<open>Requests\<close>

datatype http_method = GET | HEAD | POST | PUT | DELETE | OtherMethod string

text \<open>
  The body as it arrives: none, JSON (\<open>Content-Type: application/json\<close>, the raw text),
  or a form already decoded by \<open>express.urlencoded\<close>.
\<close>

datatype request_body = NoBody | JsonBody string | FormBody "(string \<times> jsval) list"

record http_request =
  req_method :: http_method
  req_path :: string
  req_body :: request_body

section \<open>express.json (body-parser 1.x, \<open>limit: "10mb"\<close>, strict)\<close>

definition json_body_limit :: nat where
  "json_body_limit = 10 * 1024 * 1024"

text \<open>
  A strict-mode violation re-parses the body with every character from the first
  non-blank one replaced by \<open>#\<close> and puts the original characters back into the message
  for every run of \<open>#\<close>.
\<close>

function replace_hash_runs :: "string \<Rightarrow> string \<Rightarrow> string" where
  "replace_hash_runs src [] = []"
| "replace_hash_runs src (c # cs) =
     (if c = CHR ''#''
      then take (Suc (length (takeWhile (\<lambda>x. x = CHR ''#'') cs))) src @
           replace_hash_runs src (dropWhile (\<lambda>x. x = CHR ''#'') cs)
      else c # replace_hash_runs src cs)"
  by pat_completeness auto

termination
  by (relation "measure (\<lambda>(src, m). length m)") (auto simp: le_imp_less_Suc length_dropWhile_le)

definition strict_violation :: "(string \<Rightarrow> string + jsval) \<Rightarrow> string \<Rightarrow> js_error" where
  "strict_violation JSON_parse str =
     (let t = dropWhile is_json_ws str;
          index = length str - length t;
          partial = (if t = [] then [] else take index str @ replicate (length t) CHR ''#'')
      in case JSON_parse partial of
           Inl msg \<Rightarrow> Error (replace_hash_runs (drop index str) msg)
         | Inr v \<Rightarrow> Error ''strict violation'')"

definition express_body :: "(string \<Rightarrow> string + jsval) \<Rightarrow> request_body \<Rightarrow> js_error + jsval" where
  "express_body JSON_parse b =
     (case b of
        NoBody \<Rightarrow> Inr (JObject [])
      | FormBody kvs \<Rightarrow> Inr (JObject kvs)
      | JsonBody str \<Rightarrow>
          if json_body_limit < length str then Inl (Error ''request entity too large'')
          else if str = [] then Inr (JObject [])
          else (let t = dropWhile is_json_ws str
                in if t = [] \<or> (hd t \<noteq> CHR ''{'' \<and> hd t \<noteq> CHR ''['') then Inl (strict_violation JSON_parse str)
                   else (case JSON_parse str of Inl msg \<Rightarrow> Inl (Error msg) | Inr v \<Rightarrow> Inr v)))"

section \<open>Routing\<close>

datatype handler =
    HApiInfo
  | HGetStatus | HPublishMessage | HSubscribeToTopic | HUnsubscribeFromTopic
  | HGetSubscriptions | HCreateQueue | HBroadcastAlldevices
  | HAddDevice | HUpdateDevice | HRetireDevice | HDeleteDevice | HGetDevice | HListDevices
  | HBulkAddDevices | HSendCommandToDevice

datatype 'h layer = Route http_method string 'h | Mount string "'h layer list"

text \<open>\<open>src/routes/mqttRoutes.js\<close>, \<open>src/routes/deviceRoutes.js\<close>, \<open>src/routes/index.js\<close>.\<close>

definition mqttRoutes :: "handler layer list" where
  "mqttRoutes =
     [Route GET ''/status'' HGetStatus,
      Route POST ''/publish'' HPublishMessage,
      Route POST ''/subscribe'' HSubscribeToTopic,
      Route DELETE ''/subscribe'' HUnsubscribeFromTopic,
      Route GET ''/subscriptions'' HGetSubscriptions,
      Route POST ''/queue/create'' HCreateQueue,
      Route POST ''/broadcast'' HBroadcastAlldevices]"

definition deviceRoutes :: "handler layer list" where
  "deviceRoutes =
     [Route POST ''/add'' HAddDevice,
      Route PUT ''/:deviceId'' HUpdateDevice,
      Route POST ''/:deviceId/retire'' HRetireDevice,
      Route DELETE ''/:deviceId'' HDeleteDevice,
      Route GET ''/:deviceId'' HGetDevice,
      Route GET ''/'' HListDevices,
      Route POST ''/bulk/add'' HBulkAddDevices,
      Route POST ''/:deviceId/command'' HSendCommandToDevice]"

definition apiRoutes :: "handler layer list" where
  "apiRoutes = [Route GET ''/'' HApiInfo, Mount ''/mqtt'' mqttRoutes, Mount ''/devices'' deviceRoutes]"

text \<open>\<open>app.use("/api", apiRoutes)\<close> in \<open>src/server.js\<close>.\<close>

definition app_routes :: "handler layer list" where
  "app_routes = [Mount ''/api'' apiRoutes]"

text \<open>The path split into segments; a trailing slash is ignored (non-strict routing).\<close>

definition path_segments :: "string \<Rightarrow> string list" where
  "path_segments p =
     (let xs = tl (js_split CHR ''/'' p) in if xs \<noteq> [] \<and> last xs = [] then butlast xs else xs)"

definition ascii_lower :: "char \<Rightarrow> char" where
  "ascii_lower ch = (let n = (of_char ch :: nat) in if 65 \<le> n \<and> n \<le> 90 then char_of (n + 32) else ch)"

definition seg_eq :: "string \<Rightarrow> string \<Rightarrow> bool" where
  "seg_eq a b = (map ascii_lower a = map ascii_lower b)"

fun match_segs :: "string list \<Rightarrow> string list \<Rightarrow> (string \<times> string) list option" where
  "match_segs [] [] = Some []"
| "match_segs (p # ps) (x # xs) =
     (if p \<noteq> [] \<and> hd p = CHR '':''
      then (if x = [] then None else map_option (\<lambda>r. (tl p, x) # r) (match_segs ps xs))
      else if seg_eq p x then match_segs ps xs else None)"
| "match_segs _ _ = None"

fun strip_segs :: "string list \<Rightarrow> string list \<Rightarrow> string list option" where
  "strip_segs [] xs = Some xs"
| "strip_segs (p # ps) (x # xs) = (if seg_eq p x then strip_segs ps xs else None)"
| "strip_segs _ [] = None"

text \<open>\<open>router.get\<close> also answers \<open>HEAD\<close>.\<close>

definition method_matches :: "http_method \<Rightarrow> http_method \<Rightarrow> bool" where
  "method_matches rm m = (rm = m \<or> (rm = GET \<and> m = HEAD))"

fun dispatch :: "'h layer list \<Rightarrow> http_method \<Rightarrow> string list \<Rightarrow> ('h \<times> (string \<times> string) list) option" where
  "dispatch [] m segs = None"
| "dispatch (Route rm pat h # rest) m segs =
     (case match_segs (path_segments pat) segs of
        Some params \<Rightarrow> if method_matches rm m then Some (h, params) else dispatch rest m segs
      | None \<Rightarrow> dispatch rest m segs)"
| "dispatch (Mount pre ls # rest) m segs =
     (case strip_segs (path_segments pre) segs of
        Some segs' \<Rightarrow> (case dispatch ls m segs' of Some r \<Rightarrow> Some r | None \<Rightarrow> dispatch rest m segs)
      | None \<Rightarrow> dispatch rest m segs)"

text \<open>
  Route parameters are percent-decoded (\<open>decodeURIComponent\<close>); a malformed escape is an
  error passed to the error middleware. Strings are byte strings, so an escape decodes
  to its byte (a multi-byte character to its UTF-8 bytes); the rejection of escapes that
  are not valid UTF-8 is not modelled.
\<close>

fun uri_decode :: "string \<Rightarrow> string option" where
  "uri_decode [] = Some []"
| "uri_decode (c # cs) =
     (if c = CHR ''%''
      then (case cs of
              a # b # rest \<Rightarrow>
                (case (hex_value a, hex_value b) of
                   (Some x, Some y) \<Rightarrow> map_option (\<lambda>r. char_of (16 * x + y) # r) (uri_decode rest)
                 | _ \<Rightarrow> None)
            | _ \<Rightarrow> None)
      else map_option (\<lambda>r. c # r) (uri_decode cs))"

definition decode_params :: "(string \<times> string) list \<Rightarrow> js_error + (string \<times> string) list" where
  "decode_params ps =
     (case find (\<lambda>kv. uri_decode (snd kv) = None) ps of
        Some kv \<Rightarrow> Inl (Error (''Failed to decode param '' @ squoted (snd kv)))
      | None \<Rightarrow> Inr (map (\<lambda>kv. (fst kv, the (uri_decode (snd kv)))) ps))"

section \<open>The handlers behind the routes\<close>

text \<open>\<open>GET /api\<close>: the description of the API in \<open>src/routes/index.js\<close>. The arrow is U+2192, as its UTF-8 bytes.\<close>

definition utf8_arrow :: string where
  "utf8_arrow = [CHR 0xE2, CHR 0x86, CHR 0x92]"

definition api_info :: "string \<Rightarrow> jsval" where
  "api_info now =
     JObject [(''name'', JString ''MDM ActiveMQ MQTT API''), (''version'', JString ''2.0.0''),
       (''description'', JString ''API for managing devices through ActiveMQ Artemis MQTT broker''),
       (''endpoints'', JObject [(''health'', JString ''GET /health''),
          (''mqtt'', JObject [(''status'', JString ''GET /api/mqtt/status''),
             (''publish'', JString ''POST /api/mqtt/publish''),
             (''subscribe'', JString ''POST /api/mqtt/subscribe''),
             (''unsubscribe'', JString ''DELETE /api/mqtt/subscribe''),
             (''subscriptions'', JString ''GET /api/mqtt/subscriptions''),
             (''createQueue'', JString ''POST /api/mqtt/queue/create''),
             (''broadcast'', JString ''POST /api/mqtt/broadcast'')]),
          (''devices'', JObject [(''list'', JString ''GET /api/devices''),
             (''add'', JString ''POST /api/devices/add''),
             (''get'', JString ''GET /api/devices/:deviceId''),
             (''update'', JString ''PUT /api/devices/:deviceId''),
             (''retire'', JString ''POST /api/devices/:deviceId/retire''),
             (''delete'', JString ''DELETE /api/devices/:deviceId''),
             (''bulkAdd'', JString ''POST /api/devices/bulk/add''),
             (''sendCommand'', JString ''POST /api/devices/:deviceId/command'')])]),
       (''deviceQueueStructure'', JObject [(''inQueue'', JString ''octaloop-mdm-in-{deviceId}''),
          (''outQueue'', JString ''octaloop-mdm-out-{deviceId}''),
          (''description'', JString (''IN queues: Device'' @ utf8_arrow @ ''Server, OUT queues: Server'' @ utf8_arrow @ ''Device''))]),
       (''timestamp'', JString now)]"

text \<open>The 404 handler of \<open>src/server.js\<close> (lines 68--73).\<close>

definition not_found :: "string \<Rightarrow> http_response" where
  "not_found path = Response 404 (JObject [(''error'', JString ''Route not found''), (''path'', JString path)])"

text \<open>
  A handler's result: the new state, the response and a rejection nobody handles. A
  handler that awaits is given the broker's answers \<open>ans 0\<close> (\<open>bulkAddDevices\<close>: \<open>ans i\<close>
  for its \<open>i\<close>-th entry).
\<close>

definition run_handler ::
  "string \<Rightarrow> int \<Rightarrow> (nat \<Rightarrow> ack_result \<times> ack_result) \<Rightarrow> handler \<Rightarrow> string \<Rightarrow> jsval \<Rightarrow> mqtt_service \<Rightarrow>
   mqtt_service \<times> http_response \<times> js_error option" where
  "run_handler now dateNow ans h deviceId body s =
     (let answer = fst (ans 0);
          plain = (\<lambda>(s', r). (s', r, None))
      in case h of
        HApiInfo \<Rightarrow> (s, Response 200 (api_info now), None)
      | HGetStatus \<Rightarrow> (s, getStatus now s, None)
      | HPublishMessage \<Rightarrow> plain (publishMessage now body answer s)
      | HSubscribeToTopic \<Rightarrow> plain (subscribeToTopic now body s)
      | HUnsubscribeFromTopic \<Rightarrow> plain (unsubscribeFromTopic now body s)
      | HGetSubscriptions \<Rightarrow> (s, getSubscriptions now s, None)
      | HCreateQueue \<Rightarrow> plain (createQueue_handler now body answer s)
      | HBroadcastAlldevices \<Rightarrow> broadcastAlldevices now body s
      | HAddDevice \<Rightarrow> plain (addDevice now body answer (snd (ans 0)) s)
      | HUpdateDevice \<Rightarrow> (s, updateDevice now deviceId body, None)
      | HRetireDevice \<Rightarrow> plain (retireDevice now deviceId body answer s)
      | HDeleteDevice \<Rightarrow> plain (deleteDevice now deviceId body answer s)
      | HGetDevice \<Rightarrow> (s, getDevice now deviceId s, None)
      | HListDevices \<Rightarrow> (s, listDevices_handler now s, None)
      | HBulkAddDevices \<Rightarrow> (case bulkAddDevices now ans body s of (s', r, pauses) \<Rightarrow> (s', r, None))
      | HSendCommandToDevice \<Rightarrow> plain (sendCommandToDevice now dateNow deviceId body answer s))"

section \<open>The request pipeline of src/server.js\<close>

text \<open>
  \<open>express.json\<close> runs first, for every request; its errors, like a parameter that does
  not decode, go to the error middleware (\<open>express_error\<close>, always 500). A request no
  route matches reaches the 404 handler.
\<close>

definition handle_request ::
  "string \<Rightarrow> int \<Rightarrow> (string \<Rightarrow> string + jsval) \<Rightarrow> (nat \<Rightarrow> ack_result \<times> ack_result) \<Rightarrow> http_request \<Rightarrow>
   mqtt_service \<Rightarrow> mqtt_service \<times> http_response \<times> js_error option" where
  "handle_request now dateNow JSON_parse ans req s =
     (case express_body JSON_parse (req_body req) of
        Inl e \<Rightarrow> (s, express_error e, None)
      | Inr body \<Rightarrow>
          (case dispatch app_routes (req_method req) (path_segments (req_path req)) of
             None \<Rightarrow> (s, not_found (req_path req), None)
           | Some (h, params) \<Rightarrow>
               (case decode_params params of
                  Inl e \<Rightarrow> (s, express_error e, None)
                | Inr ps \<Rightarrow>
                    run_handler now dateNow ans h
                      (case map_of ps ''deviceId'' of Some d \<Rightarrow> d | None \<Rightarrow> []) body s)))"

section \<open>Start-up and shutdown (src/server.js lines 75--104)\<close>

text \<open>
  The process either runs the service or has exited with a code. \<open>startServer\<close> awaits
  \<open>connect()\<close> and starts listening, or exits with 1 when it throws; \<open>SIGINT\<close> and
  \<open>SIGTERM\<close> disconnect and exit with 0.
\<close>

datatype process = Running mqtt_service | Exited nat

datatype signal = SIGINT | SIGTERM

definition startServer :: "env \<Rightarrow> string \<Rightarrow> js_error option \<Rightarrow> process" where
  "startServer env rnd thrown =
     (case connect env rnd thrown MQTTService_new of
        Inl e \<Rightarrow> Exited 1
      | Inr s \<Rightarrow> Running s)"

fun on_signal :: "signal \<Rightarrow> process \<Rightarrow> process \<times> mqtt_service option" where
  "on_signal sig (Running s) = (Exited 0, Some (disconnect s))"
| "on_signal sig (Exited n) = (Exited n, None)"

section \<open>The advertised endpoints\<close>

text \<open>
  The strings of the \<open>endpoints\<close> object that \<open>GET /api\<close> returns, each
  \<open>"METHOD /path"\<close>, read back as a request whose \<open>:deviceId\<close> segment is filled in.
\<close>

fun endpoint_strings :: "jsval \<Rightarrow> string list"
and endpoint_strings_kvs :: "(string \<times> jsval) list \<Rightarrow> string list" where
  "endpoint_strings (JString e) = [e]"
| "endpoint_strings (JObject kvs) = endpoint_strings_kvs kvs"
| "endpoint_strings _ = []"
| "endpoint_strings_kvs [] = []"
| "endpoint_strings_kvs ((k, v) # kvs) = endpoint_strings v @ endpoint_strings_kvs kvs"

definition method_named :: "string \<Rightarrow> http_method" where
  "method_named n = (if n = ''GET'' then GET else if n = ''POST'' then POST else if n = ''PUT'' then PUT
                     else if n = ''DELETE'' then DELETE else OtherMethod n)"

definition endpoint_request :: "string \<Rightarrow> http_method \<times> string list" where
  "endpoint_request e =
     (method_named (takeWhile (\<lambda>c. c \<noteq> CHR '' '') e), path_segments (drop 1 (dropWhile (\<lambda>c. c \<noteq> CHR '' '') e)))"

definition endpoint_routed :: "string \<Rightarrow> string \<Rightarrow> bool" where
  "endpoint_routed d e =
     (case endpoint_request e of
        (m, segs) \<Rightarrow> dispatch app_routes m (map (\<lambda>x. if x = '':deviceId'' then d else x) segs) \<noteq> None)"

section \<open>The route tables flattened\<close>

text \<open>
  A reference for the mounted tables: the flat list of every route with its full path,
  as the comments of the route files document them, matched first to last
  (\<open>dispatch_flat\<close>). \<open>flatten_routes\<close> prefixes each route with the mount paths
  above it; mounts whose paths have no parameter (\<open>literal_mounts\<close>) can be flattened
  without changing what a request reaches.
\<close>

definition literal_seg :: "string \<Rightarrow> bool" where
  "literal_seg p = (p = [] \<or> hd p \<noteq> CHR '':'')"

fun flatten_routes :: "string list \<Rightarrow> 'h layer list \<Rightarrow> (http_method \<times> string list \<times> 'h) list" where
  "flatten_routes pre [] = []"
| "flatten_routes pre (Route rm pat h # rest) = (rm, pre @ path_segments pat, h) # flatten_routes pre rest"
| "flatten_routes pre (Mount p ls # rest) = flatten_routes (pre @ path_segments p) ls @ flatten_routes pre rest"

fun literal_mounts :: "'h layer list \<Rightarrow> bool" where
  "literal_mounts [] = True"
| "literal_mounts (Route rm pat h # rest) = literal_mounts rest"
| "literal_mounts (Mount p ls # rest) = (list_all literal_seg (path_segments p) \<and> literal_mounts ls \<and> literal_mounts rest)"

fun dispatch_flat :: "(http_method \<times> string list \<times> 'h) list \<Rightarrow> http_method \<Rightarrow> string list \<Rightarrow> ('h \<times> (string \<times> string) list) option" where
  "dispatch_flat [] m segs = None"
| "dispatch_flat ((rm, pat, h) # rest) m segs =
     (case match_segs pat segs of
        Some params \<Rightarrow> if method_matches rm m then Some (h, params) else dispatch_flat rest m segs
      | None \<Rightarrow> dispatch_flat rest m segs)"

definition api_table :: "(http_method \<times> string \<times> handler) list" where
  "api_table =
     [(GET, ''/api'', HApiInfo),
      (GET, ''/api/mqtt/status'', HGetStatus),
      (POST, ''/api/mqtt/publish'', HPublishMessage),
      (POST, ''/api/mqtt/subscribe'', HSubscribeToTopic),
      (DELETE, ''/api/mqtt/subscribe'', HUnsubscribeFromTopic),
      (GET, ''/api/mqtt/subscriptions'', HGetSubscriptions),
      (POST, ''/api/mqtt/queue/create'', HCreateQueue),
      (POST, ''/api/mqtt/broadcast'', HBroadcastAlldevices),
      (POST, ''/api/devices/add'', HAddDevice),
      (PUT, ''/api/devices/:deviceId'', HUpdateDevice),
      (POST, ''/api/devices/:deviceId/retire'', HRetireDevice),
      (DELETE, ''/api/devices/:deviceId'', HDeleteDevice),
      (GET, ''/api/devices/:deviceId'', HGetDevice),
      (GET, ''/api/devices'', HListDevices),
      (POST, ''/api/devices/bulk/add'', HBulkAddDevices),
      (POST, ''/api/devices/:deviceId/command'', HSendCommandToDevice)]"

section \<open>Facts about routing\<close>

lemma match_segs_params_nonempty:
  "match_segs ps xs = Some r \<Longrightarrow> (k, v) \<in> set r \<Longrightarrow> v \<noteq> []"
  by (induction ps xs arbitrary: r rule: match_segs.induct) (auto split: if_splits)

lemma dispatch_params_nonempty:
  "dispatch ls m segs = Some (h, r) \<Longrightarrow> \<forall>kv \<in> set r. snd kv \<noteq> []"
  by (induction ls m segs rule: dispatch.induct)
     (fastforce split: option.splits if_splits dest: match_segs_params_nonempty)+

lemma uri_decode_nonempty: "uri_decode (c # cs) = Some r \<Longrightarrow> r \<noteq> []"
  by (auto split: if_splits list.splits option.splits)

lemma decode_params_nonempty:
  assumes "\<forall>kv \<in> set ps. snd kv \<noteq> []" and "decode_params ps = Inr ps'"
  shows "\<forall>kv \<in> set ps'. snd kv \<noteq> []"
proof -
  from assms(2) have ok: "\<forall>x \<in> set ps. uri_decode (snd x) \<noteq> None"
    and eq: "ps' = map (\<lambda>kv. (fst kv, the (uri_decode (snd kv)))) ps"
    by (auto simp: decode_params_def find_None_iff split: option.splits)
  have "the (uri_decode (snd x)) \<noteq> []" if x: "x \<in> set ps" for x
  proof -
    from x assms(1) obtain c cs where c: "snd x = c # cs" by (cases "snd x") auto
    with x ok obtain r where "uri_decode (c # cs) = Some r" by fastforce
    with c show ?thesis using uri_decode_nonempty by simp
  qed
  then show ?thesis by (simp add: eq)
qed

lemma dispatch_Route_other_method [simp]:
  "\<not> method_matches rm m \<Longrightarrow> dispatch (Route rm pat h # rest) m segs = dispatch rest m segs"
  by (simp split: option.split)

lemma endpoints_advertised:
  "endpoint_strings (js_get (api_info now) ''endpoints'') =
     [''GET /health'', ''GET /api/mqtt/status'', ''POST /api/mqtt/publish'', ''POST /api/mqtt/subscribe'',
      ''DELETE /api/mqtt/subscribe'', ''GET /api/mqtt/subscriptions'', ''POST /api/mqtt/queue/create'',
      ''POST /api/mqtt/broadcast'', ''GET /api/devices'', ''POST /api/devices/add'', ''GET /api/devices/:deviceId'',
      ''PUT /api/devices/:deviceId'', ''POST /api/devices/:deviceId/retire'', ''DELETE /api/devices/:deviceId'',
      ''POST /api/devices/bulk/add'', ''POST /api/devices/:deviceId/command'']"
  by (simp add: api_info_def)

lemma pattern_segments [simp]:
  "path_segments ''/api'' = [''api'']" "path_segments ''/mqtt'' = [''mqtt'']" "path_segments ''/devices'' = [''devices'']"
  "path_segments ''/'' = []" "path_segments ''/add'' = [''add'']" "path_segments ''/:deviceId'' = ['':deviceId'']"
  "path_segments ''/:deviceId/retire'' = ['':deviceId'', ''retire'']" "path_segments ''/bulk/add'' = [''bulk'', ''add'']"
  "path_segments ''/:deviceId/command'' = ['':deviceId'', ''command'']"
  by code_simp+

lemma seg_eq_same [simp]: "seg_eq x x"
  by (simp add: seg_eq_def)

lemma seg_eq_literals [simp]:
  "\<not> seg_eq ''mqtt'' ''devices''" "\<not> seg_eq ''add'' ''command''" "\<not> seg_eq ''retire'' ''command''"
  "\<not> seg_eq ''add'' ''retire''" "\<not> seg_eq ''command'' ''retire''"
  by code_simp+

lemmas route_tables = app_routes_def apiRoutes_def mqttRoutes_def deviceRoutes_def method_matches_def

lemma device_param_routes:
  assumes "d \<noteq> []"
  shows "dispatch app_routes GET [''api'', ''devices'', d] = Some (HGetDevice, [(''deviceId'', d)])"
    and "dispatch app_routes PUT [''api'', ''devices'', d] = Some (HUpdateDevice, [(''deviceId'', d)])"
    and "dispatch app_routes DELETE [''api'', ''devices'', d] = Some (HDeleteDevice, [(''deviceId'', d)])"
    and "dispatch app_routes POST [''api'', ''devices'', d, ''retire''] = Some (HRetireDevice, [(''deviceId'', d)])"
    and "dispatch app_routes POST [''api'', ''devices'', d, ''command''] = Some (HSendCommandToDevice, [(''deviceId'', d)])"
  using assms by (simp_all add: route_tables)

lemma fixed_routes:
  "dispatch app_routes GET [''health''] = None"
  "dispatch app_routes GET [''api'', ''mqtt'', ''status''] = Some (HGetStatus, [])"
  "dispatch app_routes POST [''api'', ''mqtt'', ''publish''] = Some (HPublishMessage, [])"
  "dispatch app_routes POST [''api'', ''mqtt'', ''subscribe''] = Some (HSubscribeToTopic, [])"
  "dispatch app_routes DELETE [''api'', ''mqtt'', ''subscribe''] = Some (HUnsubscribeFromTopic, [])"
  "dispatch app_routes GET [''api'', ''mqtt'', ''subscriptions''] = Some (HGetSubscriptions, [])"
  "dispatch app_routes POST [''api'', ''mqtt'', ''queue'', ''create''] = Some (HCreateQueue, [])"
  "dispatch app_routes POST [''api'', ''mqtt'', ''broadcast''] = Some (HBroadcastAlldevices, [])"
  "dispatch app_routes GET [''api'', ''devices''] = Some (HListDevices, [])"
  "dispatch app_routes POST [''api'', ''devices'', ''add''] = Some (HAddDevice, [])"
  "dispatch app_routes POST [''api'', ''devices'', ''bulk'', ''add''] = Some (HBulkAddDevices, [])"
  by code_simp+

lemma endpoint_request_values:
  "endpoint_request ''GET /health'' = (GET, [''health''])"
  "endpoint_request ''GET /api/mqtt/status'' = (GET, [''api'', ''mqtt'', ''status''])"
  "endpoint_request ''POST /api/mqtt/publish'' = (POST, [''api'', ''mqtt'', ''publish''])"
  "endpoint_request ''POST /api/mqtt/subscribe'' = (POST, [''api'', ''mqtt'', ''subscribe''])"
  "endpoint_request ''DELETE /api/mqtt/subscribe'' = (DELETE, [''api'', ''mqtt'', ''subscribe''])"
  "endpoint_request ''GET /api/mqtt/subscriptions'' = (GET, [''api'', ''mqtt'', ''subscriptions''])"
  "endpoint_request ''POST /api/mqtt/queue/create'' = (POST, [''api'', ''mqtt'', ''queue'', ''create''])"
  "endpoint_request ''POST /api/mqtt/broadcast'' = (POST, [''api'', ''mqtt'', ''broadcast''])"
  "endpoint_request ''GET /api/devices'' = (GET, [''api'', ''devices''])"
  "endpoint_request ''POST /api/devices/add'' = (POST, [''api'', ''devices'', ''add''])"
  "endpoint_request ''GET /api/devices/:deviceId'' = (GET, [''api'', ''devices'', '':deviceId''])"
  "endpoint_request ''PUT /api/devices/:deviceId'' = (PUT, [''api'', ''devices'', '':deviceId''])"
  "endpoint_request ''POST /api/devices/:deviceId/retire'' = (POST, [''api'', ''devices'', '':deviceId'', ''retire''])"
  "endpoint_request ''DELETE /api/devices/:deviceId'' = (DELETE, [''api'', ''devices'', '':deviceId''])"
  "endpoint_request ''POST /api/devices/bulk/add'' = (POST, [''api'', ''devices'', ''bulk'', ''add''])"
  "endpoint_request ''POST /api/devices/:deviceId/command'' = (POST, [''api'', ''devices'', '':deviceId'', ''command''])"
  by code_simp+

lemma path_segments_health: "path_segments ''/health'' = [''health'']"
  by code_simp


lemma match_segs_literal_prefix:
  "list_all literal_seg pre \<Longrightarrow>
   match_segs (pre @ ps) segs = (case strip_segs pre segs of Some s \<Rightarrow> match_segs ps s | None \<Rightarrow> None)"
proof (induction pre arbitrary: segs)
  case (Cons p pre)
  then show ?case by (cases segs) (auto simp: literal_seg_def)
qed simp

lemma strip_segs_append:
  "strip_segs (xs @ ys) segs = (case strip_segs xs segs of Some s \<Rightarrow> strip_segs ys s | None \<Rightarrow> None)"
proof (induction xs arbitrary: segs)
  case (Cons x xs)
  then show ?case by (cases segs) auto
qed simp

lemma dispatch_flat_append:
  "dispatch_flat (xs @ ys) m segs = (case dispatch_flat xs m segs of Some r \<Rightarrow> Some r | None \<Rightarrow> dispatch_flat ys m segs)"
  by (induction xs m segs rule: dispatch_flat.induct) (simp_all split: option.split)

lemma dispatch_flatten:
  "list_all literal_seg pre \<Longrightarrow> literal_mounts ls \<Longrightarrow>
   dispatch_flat (flatten_routes pre ls) m segs =
     (case strip_segs pre segs of Some s \<Rightarrow> dispatch ls m s | None \<Rightarrow> None)"
proof (induction pre ls arbitrary: segs rule: flatten_routes.induct)
  case (2 pre rm pat h rest)
  then show ?case
    by (simp add: match_segs_literal_prefix split: option.split)
next
  case (3 pre p ls rest)
  then show ?case
    by (simp add: dispatch_flat_append strip_segs_append split: option.split)
qed (simp split: option.split)

lemma app_routes_flat:
  "literal_mounts app_routes"
  "flatten_routes [] app_routes = map (\<lambda>(rm, p, h). (rm, path_segments p, h)) api_table"
  by code_simp+

end
