(* ===== verification/Spec2Isabelle.thy ===== *)
theory Spec2Isabelle
  imports Connection Http
begin

text \<open>
  \<^bold>\<open>A verification development for the MDM gateway (mdm-nodejs).\<close>

  The program maps HTTP requests onto an MQTT broker. Its core is the singleton
  \<open>MQTTService\<close> of \<open>src/services/mqttService.js\<close>, which owns the one broker connection,
  keeps the set of subscribed topics, serialises and decodes payloads, routes incoming
  messages by topic and counts reconnection attempts. The controllers of
  \<open>src/controllers/\<close> translate requests into calls of the service; the device
  controller derives two queue names per device and reads device records back from the
  subscription set. \<open>src/server.js\<close> calls \<open>connect()\<close> once at start-up and registers
  listeners for the service's events.

  \<^bold>\<open>Theories.\<close>
  \<^item> \<open>Prelude\<close>: the JavaScript built-ins the code relies on, with ECMAScript semantics:
    \<open>String.prototype.split\<close> and \<open>Array.prototype.join\<close> (with both round trips),
    array reads past the end (\<open>undefined\<close>), insertion-ordered \<open>Set\<close>,
    \<open>startsWith\<close>, \<open>parseInt\<close> and the falsy-default idiom \<open>x || d\<close>.
  \<^item> \<open>Json\<close>: JavaScript values, \<open>JSON.stringify\<close>, \<open>toString\<close> and the payload
    serialisation at the head of \<open>publish\<close>.
  \<^item> \<open>JsonParse\<close>: \<open>JSON.parse\<close>, the built-in that the message handler
    (\<open>mqttService.js\<close> line 89) and \<open>express.json\<close> call, as a recursive descent with
    fuel; the round trip \<open>json_parse_text (json_text v) = Parsed v []\<close> for every value
    it can return (\<open>json_wf\<close>), and that the fuel never runs out (C35).
  \<^item> \<open>Topics\<close>: the device topic mapper (\<open>inQueue_name\<close>, \<open>outQueue_name\<close>), the
    identifier check of \<open>addDevice\<close>, and \<open>listDevices\<close> (\<open>parse_subscription\<close>,
    \<open>device_queues_of\<close>, \<open>listDevices\<close>), with the name/identifier round trips and the
    characterisation of the listing by the registry's contents.
  \<^item> \<open>Router\<close>: payload decoding (\<open>decode_payload\<close>, \<open>JSON.parse\<close> with the string
    fallback) and \<open>routeMessage\<close>.
  \<^item> \<open>Service\<close>: the state of \<open>MQTTService\<close> as a record, its constructor, \<open>connect\<close>
    with the options it reads from the environment, the gateway operations
    (\<open>subscribe\<close>, \<open>unsubscribe\<close>, \<open>publish\<close>, \<open>createQueue\<close>, \<open>disconnect\<close>,
    \<open>getConnectionStatus\<close>, \<open>broadcastToAllDevices\<close>), the acknowledgement callbacks
    (\<open>run_callback\<close>, \<open>on_ack\<close>) and the event handlers registered in \<open>connect\<close>
    (\<open>on_connect\<close>, \<open>on_disconnect\<close>, \<open>on_reconnect\<close>, \<open>on_error\<close>, \<open>on_offline\<close>,
    \<open>on_message\<close>, dispatched by \<open>handle_event\<close>).
  \<^item> \<open>Connection\<close>: the running system. \<open>client_emits\<close> is the event protocol of the
    mqtt.js client (a library, modelled as the environment); \<open>sys_step\<close> interleaves
    library events, broker acknowledgements and calls of the public methods;
    \<open>reachable\<close> starts from the single \<open>connect()\<close> of \<open>startServer\<close>. The invariant
    \<open>service_inv\<close> is preserved by every step; \<open>sys_reach\<close> is reachability by any
    run, used for the liveness of reconnection (C33).
  \<^item> \<open>Api\<close>, \<open>Devices\<close>, \<open>MqttApi\<close>: what the controllers share (destructuring of
    the body, responses, awaiting the broker), every handler of
    \<open>src/controllers/deviceController.js\<close> and of \<open>src/controllers/mqttController.js\<close>.
  \<^item> \<open>Http\<close>: \<open>src/server.js\<close> and \<open>src/routes/\<close>: the body parser
    (\<open>express_body\<close>), the route tables as data with Express's matching
    (\<open>dispatch\<close>), the pipeline \<open>handle_request\<close> (body, routing, parameter decoding,
    handler, error middleware, 404), start-up and the signal handlers; and the flat
    table of full paths (\<open>api_table\<close>) that the mounted tables are equivalent to (C39).
  \<^item> This theory: concrete runs, and the properties that the manifest lists as claims.

  \<^bold>\<open>Modelling choices.\<close> Every thrown exception and rejected promise is an \<open>Inl\<close> of a
  sum; a promise that waits for the broker is a request in the client's \<open>outgoing\<close> list,
  settled by \<open>on_ack\<close> when the broker answers, in any order. A call on \<open>this.client\<close>
  while it is \<open>null\<close> is a \<open>TypeError\<close>. The decoder and the body parser take
  \<open>JSON.parse\<close> as a parameter; the claims about payloads instantiate it with the model
  of \<open>JsonParse\<close>. Numbers in payloads are integers (a fraction or exponent is
  \<open>Unsupported\<close>, outside the model); strings are byte strings. Logging is not modelled.

  \<^bold>\<open>Bounds and fuel.\<close> The only fuel is that of \<open>JSON.parse\<close>: \<open>2 * length s + 1\<close>
  calls for a text \<open>s\<close>. It is enough for every text: each call on a container consumes at
  least one character before its next call, which \<open>progress\<close> tracks (C35), so a
  \<open>NoFuel\<close> result never occurs. Every other definition is total and structurally
  recursive or has a measure (\<open>parse_chars\<close>, \<open>replace_hash_runs\<close>). The reconnection
  bound 10 is the code's \<open>maxReconnectAttempts\<close>.

  \<^bold>\<open>Not modelled.\<close> The mqtt.js library itself (its event protocol is the environment
  relation \<open>client_emits\<close>); the network and the broker (their answers are inputs);
  helmet, CORS and the request logger (headers and log lines only); \<open>console\<close>
  output; V8's wording and positions in \<open>SyntaxError\<close> messages; non-integer numbers.
\<close>

definition env0 :: env where
  "env0 = (\<lambda>_. None)"

definition rnd0 :: string where
  "rnd0 = ''0123abcd''"

definition client0 :: mqtt_client where
  "client0 = \<lparr>brokerUrl = None, options = connect_options_of env0 rnd0, link = Connecting, outgoing = []\<rparr>"

definition started0 :: mqtt_service where
  "started0 = MQTTService_new\<lparr>client := Some client0\<rparr>"

definition online0 :: mqtt_service where
  "online0 = started0\<lparr>client := Some (client0\<lparr>link := Online,
                         outgoing := [ReqSubscribe ''octaloop-mdm-in'' 1 FromSubscribe]\<rparr>),
                      isConnected := True\<rparr>"

section \<open>Concrete runs\<close>

text \<open>
  With an empty environment the service starts with \<open>reconnectPeriod = 1000\<close>. The runs
  below are: the start, the first connection (which subscribes the default topic), the
  first loss of the link, ten failed reconnection attempts, and the eleventh attempt,
  which ends the client.
\<close>

lemma client0_fields [simp]:
  "outgoing client0 = []" "link client0 = Connecting" "options client0 = connect_options_of env0 rnd0"
  by (simp_all add: client0_def)

lemma period0: "reconnectPeriod (connect_options_of env0 rnd0) = 1000"
  by (simp add: connect_options_of_def env0_def js_parseInt_def js_or_int_def)

lemma reachable_started0: "reachable p env0 rnd0 started0"
  by (rule reachable.start) (simp add: connect_def env0_def started0_def client0_def)

lemma step_online0: "sys_step p started0 [EvConnected] online0"
proof (rule sys_step.client_event)
  show "client started0 = Some client0" by (simp add: started0_def)
  show "client_emits (options client0) (link client0) CConnect Online"
    by (simp add: client0_def client_emits.connack)
  show "handle_event p CConnect (set_link Online started0) = (online0, [EvConnected])"
    by (simp add: on_connect_def subscribeToDefaultTopics_def default_topics_def set_link_def
        MQTTService_new_def subscribe_def client_call_def client_request_def js_trim_def
        is_js_space_def started0_def online0_def)
qed

lemma reachable_online0: "reachable p env0 rnd0 online0"
  using reachable_started0 step_online0 by (rule reachable.step)

lemma reachable_offline0: "reachable p env0 rnd0 (set_link Offline started0)"
proof -
  have "client started0 = Some client0" by (simp add: started0_def)
  moreover have "client_emits (options client0) (link client0) COffline Offline"
    by (rule client_emits.link_lost) (simp_all add: client0_def period0)
  moreover have "handle_event p COffline (set_link Offline started0) = (set_link Offline started0, [EvOffline])"
    by (simp add: on_offline_def started0_def MQTTService_new_def set_link_def)
  ultimately show ?thesis
    using reachable_started0 by (rule reachable_event [rotated])
qed

lemma reachable_offline10:
  "reachable p env0 rnd0 (set_link Offline started0\<lparr>reconnectAttempts := 10\<rparr>)"
proof -
  let ?s = "set_link Offline started0"
  have c: "client ?s = Some (client0\<lparr>link := Offline\<rparr>)" by (simp add: started0_def)
  have "reachable p env0 rnd0 (?s\<lparr>reconnectAttempts := reconnectAttempts ?s + 10\<rparr>)"
    by (rule reachable_reconnect_cycles [OF reachable_offline0 c])
       (simp_all add: started0_def MQTTService_new_def)
  then show ?thesis by (simp add: started0_def MQTTService_new_def)
qed

lemma reachable_exhausted0:
  "reachable p env0 rnd0 (set_link Ended started0\<lparr>reconnectAttempts := 11\<rparr>)"
proof -
  let ?s = "set_link Offline started0\<lparr>reconnectAttempts := 10\<rparr>"
  have "client ?s = Some (client0\<lparr>link := Offline\<rparr>)" by (simp add: started0_def)
  moreover have "client_emits (options (client0\<lparr>link := Offline\<rparr>)) (link (client0\<lparr>link := Offline\<rparr>))
                   CReconnect Reconnecting"
    by (simp add: client_emits.reconnect)
  moreover have "handle_event p CReconnect (set_link Reconnecting ?s) =
      (set_link Ended started0\<lparr>reconnectAttempts := 11\<rparr>, [])"
    by (simp add: on_reconnect_def started0_def MQTTService_new_def set_link_def client_call_def
        client_end_def)
  ultimately show ?thesis
    using reachable_offline10 by (rule reachable_event [rotated])
qed

lemma sys_step_from_ended:
  assumes "sys_step p s evs s'" and "client s = Some c" and "link c = Ended"
  shows "reconnectAttempts s' = reconnectAttempts s \<and> (\<not> isConnected s \<longrightarrow> \<not> isConnected s')"
  using assms
proof (induction rule: sys_step.induct)
  case (client_event s c e l s' evs)
  then show ?case by (auto elim: client_emits_Ended)
next
  case (broker_ack s c i res s' out)
  then show ?case
    by (auto simp: on_ack_def split: if_splits dest!: run_callback_frame)
qed (auto simp: disconnect_def client_end_def only_outgoing_def dest!: queue_only)


section \<open>The connection manager\<close>

text \<open>
  C1. While the reconnection period is positive, the flag \<open>isConnected\<close> is only set
  while the client's link is up: in every reachable state, \<open>isConnected\<close> implies that
  the client exists and is online.
\<close>

theorem connected_implies_online:
  assumes "reachable p env rnd s" and "0 < reconnectPeriod (connect_options_of env rnd)"
    and "isConnected s"
  shows "\<exists>c. client s = Some c \<and> link c = Online"
  using reachable_inv [OF assms(1)] assms(2,3) by (auto simp: service_inv_def)

theorem connected_implies_online_witness:
  "reachable (\<lambda>_. None) env0 rnd0 online0 \<and> 0 < reconnectPeriod (connect_options_of env0 rnd0) \<and>
   isConnected online0 \<and> (\<exists>c. client online0 = Some c \<and> link c = Online)"
proof -
  have r: "reachable (\<lambda>_. None) env0 rnd0 online0" by (rule reachable_online0)
  have p: "0 < reconnectPeriod (connect_options_of env0 rnd0)" by (simp add: period0)
  have i: "isConnected online0" by (simp add: online0_def)
  show ?thesis using connected_implies_online [OF r p i] r p i by blast
qed

text \<open>
  C2. The reconnection counter never exceeds one more than its maximum of ten: the
  handler of \<open>reconnect\<close> ends the client on the eleventh attempt, and an ended client
  emits no more events.
\<close>

theorem reconnect_attempts_bounded:
  "reachable p env rnd s \<Longrightarrow> reconnectAttempts s \<le> 11"
  by (drule reachable_inv) (simp add: service_inv_def)

theorem reconnect_attempts_bounded_witness:
  "reachable (\<lambda>_. None) env0 rnd0 (set_link Ended started0\<lparr>reconnectAttempts := 11\<rparr>) \<and>
   reconnectAttempts (set_link Ended started0\<lparr>reconnectAttempts := 11\<rparr>) \<le> 11"
  using reachable_exhausted0 reconnect_attempts_bounded [OF reachable_exhausted0] by simp

text \<open>
  C3. Once the counter exceeds the maximum, the connection is terminated: the client has
  been ended and the service is not connected.
\<close>

theorem reconnect_exhaustion_terminates:
  assumes "reachable p env rnd s" and "10 < reconnectAttempts s"
  shows "\<exists>c. client s = Some c \<and> link c = Ended \<and> \<not> isConnected s"
  using reachable_inv [OF assms(1)] assms(2) by (auto simp: service_inv_def)

theorem reconnect_exhaustion_terminates_witness:
  "reachable (\<lambda>_. None) env0 rnd0 (set_link Ended started0\<lparr>reconnectAttempts := 11\<rparr>) \<and>
   10 < reconnectAttempts (set_link Ended started0\<lparr>reconnectAttempts := 11\<rparr>) \<and>
   (\<exists>c. client (set_link Ended started0\<lparr>reconnectAttempts := 11\<rparr>) = Some c \<and> link c = Ended \<and>
        \<not> isConnected (set_link Ended started0\<lparr>reconnectAttempts := 11\<rparr>))"
  using reachable_exhausted0 reconnect_exhaustion_terminates [OF reachable_exhausted0] by simp

text \<open>
  C4. After the counter is exhausted no step of the system makes another attempt or
  reconnects: every later step keeps the counter and leaves the service disconnected.
\<close>

theorem exhausted_no_further_attempts:
  assumes "reachable p env rnd s" and "10 < reconnectAttempts s" and "sys_step p s evs s'"
  shows "reconnectAttempts s' = reconnectAttempts s \<and> \<not> isConnected s'"
proof -
  from assms(1,2) obtain c where "client s = Some c" "link c = Ended" "\<not> isConnected s"
    using reachable_inv [OF assms(1)] by (auto simp: service_inv_def)
  with assms(3) show ?thesis using sys_step_from_ended by blast
qed

theorem exhausted_no_further_attempts_witness:
  "reachable (\<lambda>_. None) env0 rnd0 (set_link Ended started0\<lparr>reconnectAttempts := 11\<rparr>) \<and>
   10 < reconnectAttempts (set_link Ended started0\<lparr>reconnectAttempts := 11\<rparr>) \<and>
   sys_step (\<lambda>_. None) (set_link Ended started0\<lparr>reconnectAttempts := 11\<rparr>) []
     (disconnect (set_link Ended started0\<lparr>reconnectAttempts := 11\<rparr>)) \<and>
   reconnectAttempts (disconnect (set_link Ended started0\<lparr>reconnectAttempts := 11\<rparr>)) = 11 \<and>
   \<not> isConnected (disconnect (set_link Ended started0\<lparr>reconnectAttempts := 11\<rparr>))"
proof -
  have r: "reachable (\<lambda>_. None) env0 rnd0 (set_link Ended started0\<lparr>reconnectAttempts := 11\<rparr>)"
    by (rule reachable_exhausted0)
  have st: "sys_step (\<lambda>_. None) (set_link Ended started0\<lparr>reconnectAttempts := 11\<rparr>) []
     (disconnect (set_link Ended started0\<lparr>reconnectAttempts := 11\<rparr>))"
    by (rule sys_step.api_disconnect)
  show ?thesis using exhausted_no_further_attempts [OF r _ st] r st by simp
qed



section \<open>Subscriptions and acknowledgements\<close>

text \<open>
  C6. When the broker acknowledges a request, the registry reported by
  \<open>getConnectionStatus\<close> follows it: an acknowledged subscription (from \<open>subscribe\<close> or
  \<open>createQueue\<close>) is in the registry, an acknowledged unsubscription is not.
\<close>

theorem ack_updates_registry:
  assumes "client s = Some c" and "i < length (outgoing c)" and "on_ack i (Inr g) s = (s', out)"
  shows "(\<forall>t q org. outgoing c ! i = ReqSubscribe t q org \<longrightarrow> t \<in> set (st_subscriptions (getConnectionStatus s'))) \<and>
         (\<forall>t. outgoing c ! i = ReqUnsubscribe t \<longrightarrow> t \<notin> set (st_subscriptions (getConnectionStatus s')))"
  using assms
  by (auto simp: on_ack_def run_callback_def subscribe_cb_def unsubscribe_cb_def createQueue_cb_def
      getConnectionStatus_def split: sub_origin.splits)

theorem ack_updates_registry_witness:
  "client online0 = Some (client0\<lparr>link := Online, outgoing := [ReqSubscribe ''octaloop-mdm-in'' 1 FromSubscribe]\<rparr>) \<and>
   ''octaloop-mdm-in'' \<in> set (st_subscriptions (getConnectionStatus (fst (on_ack 0 (Inr [(''octaloop-mdm-in'', 1)]) online0))))"
proof -
  let ?c = "client0\<lparr>link := Online, outgoing := [ReqSubscribe ''octaloop-mdm-in'' 1 FromSubscribe]\<rparr>"
  let ?r = "on_ack 0 (Inr [(''octaloop-mdm-in'', 1)]) online0"
  have c: "client online0 = Some ?c" by (simp add: online0_def)
  have i: "0 < length (outgoing ?c)" by simp
  have "?r = (fst ?r, snd ?r)" by simp
  from ack_updates_registry [OF c i this] c show ?thesis by simp
qed



text \<open>
  C8. \<open>subscribe\<close> reports whether it dispatched the request, not whether the broker
  granted it: it returns \<open>isConnected\<close>, queues the request when connected, and leaves
  the registry unchanged until the acknowledgement.
\<close>

theorem subscribe_reports_dispatch:
  assumes "client s = Some c"
  shows "\<exists>s'. subscribe t q s = Inr (s', isConnected s) \<and> subscriptions s' = subscriptions s \<and>
              (isConnected s \<longrightarrow> client s' = Some (c\<lparr>outgoing := outgoing c @ [ReqSubscribe t q FromSubscribe]\<rparr>))"
  using assms by (simp add: subscribe_def client_call_def client_request_def)

theorem subscribe_reports_dispatch_witness:
  "\<exists>s'. subscribe ''t'' 0 online0 = Inr (s', True) \<and> subscriptions s' = subscriptions online0"
proof -
  have c: "client online0 = Some (client0\<lparr>link := Online, outgoing := [ReqSubscribe ''octaloop-mdm-in'' 1 FromSubscribe]\<rparr>)"
    by (simp add: online0_def)
  have i: "isConnected online0" by (simp add: online0_def)
  from subscribe_reports_dispatch [OF c, of "''t''" 0] i show ?thesis by auto
qed

text \<open>
  C9. While disconnected, \<open>publish\<close> and \<open>createQueue\<close> reject with
  \<open>MQTT client not connected\<close>, while \<open>subscribe\<close> and \<open>unsubscribe\<close> return \<open>false\<close>
  and change nothing.
\<close>

theorem disconnected_rejects:
  assumes "\<not> isConnected s"
  shows "publish t m q r s = Inl (Error ''MQTT client not connected'') \<and>
         createQueue t q d s = Inl (Error ''MQTT client not connected'') \<and>
         subscribe t q s = Inr (s, False) \<and> unsubscribe t s = Inr (s, False)"
  using assms by (simp add: publish_def createQueue_def subscribe_def unsubscribe_def not_connected_def)

theorem disconnected_rejects_witness:
  "publish ''t'' (JString ''m'') 1 False started0 = Inl (Error ''MQTT client not connected'') \<and>
   subscribe ''t'' 1 started0 = Inr (started0, False)"
proof -
  have "\<not> isConnected started0" by (simp add: started0_def MQTTService_new_def)
  from disconnected_rejects [OF this] show ?thesis by blast
qed

section \<open>The message router\<close>

text \<open>
  C10. A topic \<open>mdm/devices/d/a\<close> is routed as a device message and
  \<open>mdm/commands/d/a\<close> as a command message, with the third and fourth segments as
  device and action or command.
\<close>

theorem route_scoped_topics:
  assumes "CHR ''/'' \<notin> set d" and "CHR ''/'' \<notin> set a"
  shows "routeMessage (''mdm/devices/'' @ d @ ''/'' @ a) m = DeviceMessage (Some d) (Some a) m \<and>
         routeMessage (''mdm/commands/'' @ d @ ''/'' @ a) m = CommandMessage (Some d) (Some a) m"
  using assms by (simp add: routeMessage_def js_split_append_sep js_split_no_sep js_at_def)

theorem route_scoped_topics_witness:
  "routeMessage ''mdm/devices/dev1/status'' (JNumber 1) = DeviceMessage (Some ''dev1'') (Some ''status'') (JNumber 1)"
  using route_scoped_topics [of "''dev1''" "''status''" "JNumber 1"] by simp

text \<open>
  C11. A scoped topic with fewer segments still classifies: the missing segments are
  \<open>undefined\<close> (here \<open>None\<close>).
\<close>

theorem route_short_scoped_topics:
  assumes "CHR ''/'' \<notin> set d"
  shows "routeMessage (''mdm/devices/'' @ d) m = DeviceMessage (Some d) None m \<and>
         routeMessage ''mdm/devices'' m = DeviceMessage None None m \<and>
         routeMessage (''mdm/commands/'' @ d) m = CommandMessage (Some d) None m"
  using assms by (simp add: routeMessage_def js_split_append_sep js_split_no_sep js_at_def)

theorem route_short_scoped_topics_witness:
  "routeMessage ''mdm/commands/dev1'' JNull = CommandMessage (Some ''dev1'') None JNull"
  using route_short_scoped_topics [of "''dev1''" JNull] by simp

text \<open>
  C12. The device queues are never classified: a message on
  \<open>octaloop-mdm-in-d\<close> or \<open>octaloop-mdm-out-d\<close> is a generic message, because the queue
  names contain no \<open>/\<close>.
\<close>

theorem device_queues_route_generic:
  "routeMessage (inQueue_name d) m = GenericMessage (inQueue_name d) m \<and>
   routeMessage (outQueue_name d) m = GenericMessage (outQueue_name d) m"
  by (simp add: routeMessage_generic inQueue_name_def outQueue_name_def)

section \<open>Device queues and the device listing\<close>

text \<open>
  C13. Reading a subscription back (\<open>listDevices\<close>) inverts the topic mapper: a topic
  parses to device \<open>d\<close> and direction \<open>in\<close>/\<open>out\<close> exactly when it is that device's
  in-queue or out-queue name, for every identifier, hyphens included.
\<close>

theorem queue_names_roundtrip:
  "parse_subscription s = Some (d, t) \<longleftrightarrow>
   (t = ''in'' \<and> s = inQueue_name d) \<or> (t = ''out'' \<and> s = outQueue_name d)"
  by (auto simp: parse_inQueue_name parse_outQueue_name dest: parse_subscription_cases)

theorem queue_names_roundtrip_witness:
  "parse_subscription ''octaloop-mdm-out-dev-1'' = Some (''dev-1'', ''out'')"
  using queue_names_roundtrip [of "''octaloop-mdm-out-dev-1''" "''dev-1''" "''out''"]
  by (simp add: outQueue_name_def)

text \<open>
  C14. The listing is consistent with the registry: its totals add up, each device
  appears once, and a device is listed exactly when one of its two queues is subscribed.
\<close>

theorem listDevices_consistent:
  "totalDevices (listDevices subs) = activeDevices (listDevices subs) + partialDevices (listDevices subs) \<and>
   distinct (map dev_id (devices (listDevices subs))) \<and>
   (d \<in> dev_id ` set (devices (listDevices subs)) \<longleftrightarrow> inQueue_name d \<in> set subs \<or> outQueue_name d \<in> set subs)"
proof -
  let ?ds = "devices (listDevices subs)"
  have ids: "map dev_id ?ds = map fst (device_queues_of subs)"
    by (simp add: listDevices_def Let_def summarise_device_def split_def comp_def)
  have part: "filter (\<lambda>x. dev_status x = Partial) ?ds = filter (\<lambda>x. \<not> dev_status x = Active) ?ds"
    by (rule filter_cong) simp_all
  have "totalDevices (listDevices subs) = length ?ds"
    and "activeDevices (listDevices subs) = length (filter (\<lambda>x. dev_status x = Active) ?ds)"
    and "partialDevices (listDevices subs) = length (filter (\<lambda>x. dev_status x = Partial) ?ds)"
    by (simp_all add: listDevices_def Let_def)
  then have cnt: "totalDevices (listDevices subs) = activeDevices (listDevices subs) + partialDevices (listDevices subs)"
    by (simp only: part sum_length_filter_compl)
  have dist: "distinct (map dev_id ?ds)"
    using ids distinct_device_queues_of by simp
  have "d \<in> dev_id ` set ?ds \<longleftrightarrow> d \<in> set (map fst (device_queues_of subs))"
    by (metis ids set_map)
  also have "\<dots> \<longleftrightarrow> map_of (device_queues_of subs) d \<noteq> None"
    by (simp add: map_of_eq_None_iff)
  also have "\<dots> \<longleftrightarrow> inQueue_name d \<in> set subs \<or> outQueue_name d \<in> set subs"
    by (simp add: map_of_device_queues_of)
  finally show ?thesis using cnt dist by simp
qed

theorem listDevices_consistent_witness:
  "''dev-1'' \<in> dev_id ` set (devices (listDevices [''octaloop-mdm-in'', ''octaloop-mdm-out-dev-1'']))"
  using listDevices_consistent [of "[''octaloop-mdm-in'', ''octaloop-mdm-out-dev-1'']" "''dev-1''"]
  by (simp add: outQueue_name_def)

text \<open>
  C15. \<open>getDevice\<close> and \<open>listDevices\<close> agree: \<open>getDevice\<close> reports a device as active
  exactly when \<open>listDevices\<close> lists it with status active.
\<close>

theorem getDevice_agrees_with_listDevices:
  assumes "deviceId \<noteq> []"
  shows "(js_get (js_get (js_get (body_of (getDevice now deviceId s)) ''data'') ''device'') ''status'' = JString ''active'') =
         (\<exists>x \<in> set (devices (listDevices (subscriptions s))). dev_id x = deviceId \<and> dev_status x = Active)"
  using assms by (simp add: listDevices_active_iff getDevice_def Let_def getConnectionStatus_def)

theorem getDevice_agrees_with_listDevices_witness:
  "js_get (js_get (js_get (body_of (getDevice ''t0'' ''dev-1'' online0)) ''data'') ''device'') ''status'' \<noteq> JString ''active''"
proof -
  have "\<not> (\<exists>x \<in> set (devices (listDevices (subscriptions online0))). dev_id x = ''dev-1'' \<and> dev_status x = Active)"
    by (simp add: listDevices_active_iff online0_def started0_def MQTTService_new_def)
  with getDevice_agrees_with_listDevices [of "''dev-1''" "''t0''" online0] show ?thesis by simp
qed

section \<open>The device controller\<close>

text \<open>
  C16. \<open>addDevice\<close> with a valid identifier, on a connected service whose broker grants
  both queues, registers the in-queue and then the out-queue and answers 200 with
  \<open>success: true\<close>.
\<close>

theorem addDevice_creates_pair:
  assumes "client s = Some c" and "isConnected s"
    and "js_truthy (js_get (JObject kvs) ''deviceId'')"
    and "valid_device_id (js_String (js_get (JObject kvs) ''deviceId''))"
  shows "subscriptions (fst (addDevice now (JObject kvs) (Inr g1) (Inr g2) s)) =
           js_set_add (js_set_add (subscriptions s) (inQueue_name (js_String (js_get (JObject kvs) ''deviceId''))))
             (outQueue_name (js_String (js_get (JObject kvs) ''deviceId''))) \<and>
         status_of (snd (addDevice now (JObject kvs) (Inr g1) (Inr g2) s)) = 200 \<and>
         response_success (snd (addDevice now (JObject kvs) (Inr g1) (Inr g2) s))"
  using assms by (simp add: addDevice_def Let_def await_createQueue_eq response_success_def)

lemma online0_client:
  "client online0 = Some (client0\<lparr>link := Online, outgoing := [ReqSubscribe ''octaloop-mdm-in'' 1 FromSubscribe]\<rparr>)"
  "isConnected online0" "\<not> isConnected started0" "client started0 = Some client0"
  by (simp_all add: online0_def started0_def MQTTService_new_def)

lemma valid_dev1: "valid_device_id ''dev-1''" "\<not> valid_device_id ''a/b''"
  by (simp_all add: valid_device_id_def is_id_char_def)

theorem addDevice_creates_pair_witness:
  "subscriptions (fst (addDevice ''t0'' (JObject [(''deviceId'', JString ''dev-1'')]) (Inr []) (Inr []) online0)) =
     [''octaloop-mdm-in-dev-1'', ''octaloop-mdm-out-dev-1'']"
  using addDevice_creates_pair [OF online0_client(1,2), of "[(''deviceId'', JString ''dev-1'')]"]
  by (simp add: valid_dev1 online0_def started0_def MQTTService_new_def inQueue_name_def outQueue_name_def
      js_set_add_def)

text \<open>
  C17. \<open>addDevice\<close> does not roll back: when the out-queue fails after the in-queue was
  created, the in-queue stays registered and the 500 response lists it as the partial
  result.
\<close>

theorem addDevice_partial_no_rollback:
  assumes "client s = Some c" and "isConnected s"
    and "js_truthy (js_get (JObject kvs) ''deviceId'')"
    and "valid_device_id (js_String (js_get (JObject kvs) ''deviceId''))"
  shows "subscriptions (fst (addDevice now (JObject kvs) (Inr g1) (Inl e) s)) =
           js_set_add (subscriptions s) (inQueue_name (js_String (js_get (JObject kvs) ''deviceId''))) \<and>
         status_of (snd (addDevice now (JObject kvs) (Inr g1) (Inl e) s)) = 500 \<and>
         js_get (body_of (snd (addDevice now (JObject kvs) (Inr g1) (Inl e) s))) ''partialResults'' =
           JArray [queue_result (inQueue_name (js_String (js_get (JObject kvs) ''deviceId''))) ''in'' g1]"
  using assms by (simp add: addDevice_def Let_def await_createQueue_eq)

theorem addDevice_partial_no_rollback_witness:
  "status_of (snd (addDevice ''t0'' (JObject [(''deviceId'', JString ''dev-1'')]) (Inr []) (Inl (Error ''x'')) online0)) = 500"
  using addDevice_partial_no_rollback [OF online0_client(1,2), of "[(''deviceId'', JString ''dev-1'')]"]
  by (simp add: valid_dev1)



text \<open>
  C19. While the broker is unreachable \<open>addDevice\<close> answers 500 with the service's
  error, where the MQTT controller's \<open>createQueue\<close> answers 503 (C26).
\<close>

theorem addDevice_disconnected_is_500:
  assumes "client s = Some c" and "\<not> isConnected s"
    and "js_truthy (js_get (JObject kvs) ''deviceId'')"
    and "valid_device_id (js_String (js_get (JObject kvs) ''deviceId''))"
  shows "fst (addDevice now (JObject kvs) a1 a2 s) = s \<and>
         status_of (snd (addDevice now (JObject kvs) a1 a2 s)) = 500 \<and>
         js_get (body_of (snd (addDevice now (JObject kvs) a1 a2 s))) ''details'' = JString ''MQTT client not connected''"
  using assms by (simp add: addDevice_def Let_def await_createQueue_eq not_connected_def)

theorem addDevice_disconnected_is_500_witness:
  "status_of (snd (addDevice ''t0'' (JObject [(''deviceId'', JString ''dev-1'')]) (Inr []) (Inr []) started0)) = 500"
  using addDevice_disconnected_is_500 [OF online0_client(4,3), of "[(''deviceId'', JString ''dev-1'')]"]
  by (simp add: valid_dev1)

text \<open>
  C20. \<open>deleteDevice\<close> with \<open>removeQueues\<close> reports both unsubscriptions as
  \<open>success\<close> even when the service is disconnected, although \<open>unsubscribe\<close> then
  returns \<open>false\<close> and removes nothing: the registry is unchanged.
\<close>

theorem deleteDevice_reports_success_when_disconnected:
  assumes "\<not> isConnected s" and "deviceId \<noteq> []"
  shows "deleteDevice now deviceId (JObject [(''removeQueues'', JBool True)]) answer s =
           (s, Response 200 (JObject [(''success'', JBool True),
                (''message'', JString (''Device '' @ squoted deviceId @ '' deleted successfully'')),
                (''data'', JObject [(''device'', JObject [(''deviceId'', JString deviceId),
                     (''status'', JString ''deleted''), (''reason'', JString ''Manual deletion''),
                     (''deletedAt'', JString now), (''queuesRemoved'', JBool True),
                     (''queueOperations'', JArray [queue_operation (inQueue_name deviceId) ''success'',
                                                   queue_operation (outQueue_name deviceId) ''success''])]),
                   (''timestamp'', JString now)])]))"
  using assms by (simp add: deleteDevice_def remove_queues_def unsubscribe_disconnected js_default_def Let_def)

theorem deleteDevice_reports_success_when_disconnected_witness:
  "fst (deleteDevice ''t0'' ''dev-1'' (JObject [(''removeQueues'', JBool True)]) (Inr []) started0) = started0"
  using deleteDevice_reports_success_when_disconnected [OF online0_client(3), of "''dev-1''"] by simp

text \<open>
  C21. \<open>bulkAddDevices\<close> on a non-empty list of entries that are neither \<open>null\<close> nor
  \<open>undefined\<close> answers 200 with one result per entry, and pauses once per entry that
  has an identifier.
\<close>

theorem bulkAddDevices_reports_every_entry:
  assumes "devs \<noteq> []" and "\<forall>dd \<in> set devs. dd \<noteq> JUndefined \<and> dd \<noteq> JNull"
  shows "status_of (fst (snd (bulkAddDevices now ans (JObject [(''devices'', JArray devs)]) s))) = 200 \<and>
         (\<exists>rs. js_get (js_get (body_of (fst (snd (bulkAddDevices now ans (JObject [(''devices'', JArray devs)]) s))))
                   ''data'') ''results'' = JArray rs \<and> length rs = length devs) \<and>
         snd (snd (bulkAddDevices now ans (JObject [(''devices'', JArray devs)]) s)) =
           length (filter (\<lambda>dd. js_truthy (js_get dd ''deviceId'')) devs)"
proof -
  obtain s' rs n t where r: "bulk_loop ans 0 devs s = (s', rs, n, t)"
    by (cases "bulk_loop ans 0 devs s") auto
  from bulk_loop_no_throw [OF assms(2) r]
  have "t = None \<and> length rs = length devs \<and> n = length (filter (\<lambda>dd. js_truthy (js_get dd ''deviceId'')) devs)" .
  with r assms(1) show ?thesis
    by (simp add: bulkAddDevices_def Let_def)
qed

theorem bulkAddDevices_reports_every_entry_witness:
  "snd (snd (bulkAddDevices ''t0'' (\<lambda>_. (Inr [], Inr []))
      (JObject [(''devices'', JArray [JObject [(''deviceId'', JString ''a'')], JObject []])]) online0)) = 1"
  using bulkAddDevices_reports_every_entry
    [of "[JObject [(''deviceId'', JString ''a'')], JObject []]" "''t0''" "\<lambda>_. (Inr [], Inr [])" online0]
  by simp

text \<open>
  C22. A \<open>null\<close> entry aborts the whole bulk request with 500, although the queues of
  the entries before it have been created and stay registered.
\<close>

theorem bulk_null_entry_aborts:
  assumes "\<forall>dd \<in> set pre. dd \<noteq> JUndefined \<and> dd \<noteq> JNull"
  shows "bulkAddDevices now ans (JObject [(''devices'', JArray (pre @ JNull # rest))]) s =
           (fst (bulk_loop ans 0 pre s),
            failure_response 500 ''Failed to bulk add devices'' (TypeError ''Cannot destructure 'null' as it is null.''),
            length (filter (\<lambda>dd. js_truthy (js_get dd ''deviceId'')) pre))"
proof -
  obtain s' rs n t where r: "bulk_loop ans 0 pre s = (s', rs, n, t)"
    by (cases "bulk_loop ans 0 pre s") auto
  from bulk_loop_no_throw [OF assms r] have t: "t = None"
    and n: "n = length (filter (\<lambda>dd. js_truthy (js_get dd ''deviceId'')) pre)"
    by simp_all
  have "bulk_loop ans 0 (pre @ JNull # rest) s =
          (s', rs, n, Some (TypeError ''Cannot destructure 'null' as it is null.''))"
    by (simp add: bulk_loop_append r t js_destructure_def)
  then show ?thesis
    by (simp add: bulkAddDevices_def r n)
qed

theorem bulk_null_entry_aborts_witness:
  "subscriptions (fst (bulkAddDevices ''t0'' (\<lambda>_. (Inr [], Inr []))
      (JObject [(''devices'', JArray [JObject [(''deviceId'', JString ''a'')], JNull])]) online0)) =
     [''octaloop-mdm-in-a'', ''octaloop-mdm-out-a''] \<and>
   status_of (fst (snd (bulkAddDevices ''t0'' (\<lambda>_. (Inr [], Inr []))
      (JObject [(''devices'', JArray [JObject [(''deviceId'', JString ''a'')], JNull])]) online0))) = 500"
proof -
  have "\<forall>dd \<in> set [JObject [(''deviceId'', JString ''a'')]]. dd \<noteq> JUndefined \<and> dd \<noteq> JNull" by simp
  from bulk_null_entry_aborts [OF this, of "''t0''" "\<lambda>_. (Inr [], Inr [])" "[]" online0]
  have eq: "bulkAddDevices ''t0'' (\<lambda>_. (Inr [], Inr []))
      (JObject [(''devices'', JArray [JObject [(''deviceId'', JString ''a'')], JNull])]) online0 =
      (fst (bulk_loop (\<lambda>_. (Inr [], Inr [])) 0 [JObject [(''deviceId'', JString ''a'')]] online0),
       failure_response 500 ''Failed to bulk add devices'' (TypeError ''Cannot destructure 'null' as it is null.''), 1)"
    by simp
  show ?thesis unfolding eq
    by (simp add: bulk_item_def Let_def await_createQueue_eq online0_client online0_def started0_def
        MQTTService_new_def inQueue_name_def outQueue_name_def js_set_add_def failure_response_def)
qed



section \<open>The MQTT controller\<close>

text \<open>
  C24. The \<open>createQueue\<close> handler never creates a queue with QoS 0: \<open>options.qos || 1\<close>
  turns a requested 0 into 1, so every successful answer reports QoS 1 or 2.
\<close>

theorem createQueue_handler_never_grants_qos0:
  assumes "status_of (snd (createQueue_handler now body answer s)) = 200"
  shows "js_get (js_get (js_get (body_of (snd (createQueue_handler now body answer s))) ''data'') ''options'') ''qos''
           \<in> {JNumber 1, JNumber 2}"
proof (cases "js_destructure body")
  case (Inl e)
  with assms show ?thesis by (simp add: createQueue_handler_def createQueue_catch_status)
next
  case b: (Inr b)
  show ?thesis
  proof (cases "js_get b ''queueName''")
    case (JString q)
    let ?o = "js_default (js_get b ''options'') (JObject [(''qos'', JNumber 1), (''durable'', JBool True)])"
    show ?thesis
    proof (cases "js_prop ?o ''qos''")
      case (Inl e)
      with assms b JString show ?thesis
        by (simp add: createQueue_handler_def createQueue_catch_status Let_def split: if_splits)
    next
      case qv: (Inr qv)
      show ?thesis
      proof (cases "js_prop ?o ''durable''")
        case (Inl e)
        with assms b JString qv show ?thesis
          by (simp add: createQueue_handler_def createQueue_catch_status Let_def split: if_splits)
      next
        case dv: (Inr dv)
        let ?qos = "if js_truthy qv then qv else JNumber 1"
        let ?d = "if dv \<noteq> JUndefined then dv else JBool True"
        obtain s1 r where a: "await_createQueue q (lib_qos (JObject [(''qos'', ?qos), (''durable'', ?d)])) (js_truthy ?d) answer s = (s1, r)"
          by (cases "await_createQueue q (lib_qos (JObject [(''qos'', ?qos), (''durable'', ?d)])) (js_truthy ?d) answer s") auto
        show ?thesis
        proof (cases r)
          case (Inl e)
          with assms b JString qv dv a show ?thesis
            by (simp add: createQueue_handler_def createQueue_catch_status Let_def del: insert_iff split: if_splits)
        next
          case (Inr g)
          have "?qos \<in> {JNumber 1, JNumber 2} \<or> ?qos \<notin> {JNumber 0, JNumber 1, JNumber 2}"
            by (cases "js_truthy qv") auto
          with Inr assms b JString qv dv a show ?thesis
            by (auto simp: createQueue_handler_def Let_def simp del: insert_iff split: if_splits)
        qed
      qed
    qed
  qed (use assms b in \<open>simp_all add: createQueue_handler_def Let_def split: if_splits\<close>)
qed

theorem createQueue_handler_never_grants_qos0_witness:
  "status_of (snd (createQueue_handler ''t0'' (JObject [(''queueName'', JString ''q''), (''options'', JObject [(''qos'', JNumber 0)])])
     (Inr []) online0)) = 200 \<and>
   js_get (js_get (js_get (body_of (snd (createQueue_handler ''t0''
     (JObject [(''queueName'', JString ''q''), (''options'', JObject [(''qos'', JNumber 0)])]) (Inr []) online0))) ''data'') ''options'') ''qos''
     = JNumber 1"
proof -
  have s: "status_of (snd (createQueue_handler ''t0'' (JObject [(''queueName'', JString ''q''), (''options'', JObject [(''qos'', JNumber 0)])])
     (Inr []) online0)) = 200"
    by (simp add: createQueue_handler_def js_trim_def is_js_space_def js_prop_def js_default_def await_createQueue_eq online0_client Let_def)
  from createQueue_handler_never_grants_qos0 [OF s] s show ?thesis
    by (simp add: createQueue_handler_def js_trim_def is_js_space_def js_prop_def js_default_def await_createQueue_eq online0_client Let_def)
qed

text \<open>
  C25. While disconnected the \<open>createQueue\<close> handler answers 503, service unavailable,
  and changes nothing.
\<close>

theorem createQueue_handler_unavailable_503:
  assumes "client s = Some c" and "\<not> isConnected s" and "js_trim q \<noteq> []"
  shows "createQueue_handler now (JObject [(''queueName'', JString q)]) answer s =
           (s, Response 503 (JObject [(''success'', JBool False), (''error'', JString ''MQTT service unavailable''),
                                      (''details'', JString ''MQTT client is not connected to the broker'')]))"
proof -
  from assms(3) have "q \<noteq> []" by (auto simp: js_trim_def)
  with assms show ?thesis
    by (simp add: createQueue_handler_def Let_def js_get_def js_default_def js_prop_def await_createQueue_eq
        createQueue_catch_def not_connected_def)
qed

theorem createQueue_handler_unavailable_503_witness:
  "status_of (snd (createQueue_handler ''t0'' (JObject [(''queueName'', JString ''q'')]) (Inr []) started0)) = 503"
proof -
  have "js_trim ''q'' \<noteq> []" by (simp add: js_trim_def is_js_space_def)
  from createQueue_handler_unavailable_503 [OF online0_client(4,3) this] show ?thesis by simp
qed

text \<open>
  C26. \<open>broadcastAlldevices\<close> answers 200 with \<open>success: true\<close> without waiting for the
  publication; while disconnected the promise of \<open>publish\<close> is rejected and nobody
  handles the rejection.
\<close>

theorem broadcast_unhandled_rejection:
  assumes "\<not> isConnected s"
  shows "broadcastAlldevices now (JObject kvs) s =
           (s, Response 200 (JObject [(''success'', JBool True), (''data'', JObject []), (''timestamp'', JString now)]),
            Some (Error ''MQTT client not connected''))"
  using assms by (simp add: broadcastAlldevices_def publish_def not_connected_def)

theorem broadcast_unhandled_rejection_witness:
  "snd (snd (broadcastAlldevices ''t0'' (JObject [(''message'', JString ''hi'')]) started0)) =
     Some (Error ''MQTT client not connected'')"
  using broadcast_unhandled_rejection [OF online0_client(3), of "''t0''" "[(''message'', JString ''hi'')]"] by simp



section \<open>Configuration\<close>




section \<open>The HTTP layer\<close>

text \<open>
  C29. The route tables implement the API that \<open>GET /api\<close> advertises: every endpoint it
  lists is routed to a handler, for any device identifier, except \<open>GET /health\<close>, for
  which no route exists.
\<close>

theorem advertised_endpoints_routed:
  assumes "d \<noteq> []"
  shows "\<forall>e \<in> set (endpoint_strings (js_get (api_info now) ''endpoints'')). endpoint_routed d e \<longleftrightarrow> e \<noteq> ''GET /health''"
  unfolding endpoints_advertised
  using assms by (simp add: endpoint_routed_def endpoint_request_values fixed_routes device_param_routes)

theorem advertised_endpoints_routed_witness:
  "endpoint_routed ''dev-1'' ''POST /api/devices/:deviceId/retire'' \<and> \<not> endpoint_routed ''dev-1'' ''GET /health''"
  using advertised_endpoints_routed [of "''dev-1''" "''t0''"] by (simp add: endpoints_advertised)



text \<open>
  C31. A JSON body that does not parse is answered 500 \<open>Internal server error\<close> on every
  path, before routing: the error middleware ignores the status 400 that the body
  parser sets, although a malformed request is a client error.
\<close>

theorem malformed_json_is_500:
  assumes "length str \<le> json_body_limit" and "dropWhile is_json_ws str = c # rest"
    and "c = CHR ''{'' \<or> c = CHR ''[''" and "JSON_parse str = Inl msg"
  shows "handle_request now dateNow JSON_parse ans \<lparr>req_method = m, req_path = p, req_body = JsonBody str\<rparr> s =
           (s, Response 500 (JObject [(''error'', JString ''Internal server error''), (''message'', JString msg)]), None)"
proof -
  from assms(2) have "str \<noteq> []" by auto
  with assms show ?thesis
    by (auto simp: handle_request_def express_body_def express_error_def)
qed

theorem malformed_json_is_500_witness:
  "handle_request ''t0'' 0 (\<lambda>_. Inl ''Unexpected end of JSON input'') (\<lambda>_. (Inr [], Inr []))
     \<lparr>req_method = POST, req_path = ''/api/devices/add'', req_body = JsonBody ''{''\<rparr> MQTTService_new =
   (MQTTService_new, Response 500 (JObject [(''error'', JString ''Internal server error''),
      (''message'', JString ''Unexpected end of JSON input'')]), None)"
  by (rule malformed_json_is_500 [where c = "CHR ''{''" and rest = "[]"]) (simp_all add: json_body_limit_def is_json_ws_def)



section \<open>Reconnection\<close>

text \<open>
  C33. Reconnection can always succeed while attempts remain: from any state whose client
  is neither ended nor closed, with a positive reconnection period and fewer attempts
  than the maximum, some run of the system (the link drops, the library reconnects and
  the broker accepts) reaches a connected state with the counter reset to 0.
\<close>

theorem reconnection_possible:
  assumes "client s = Some c" and "link c \<noteq> Ended" and "link c \<noteq> Closed"
    and "0 < reconnectPeriod (options c)" and "reconnectAttempts s < maxReconnectAttempts s"
  shows "\<exists>s'. sys_reach p s s' \<and> isConnected s' \<and> reconnectAttempts s' = 0"
proof (cases "link c")
  case Online
  let ?s1 = "(set_link Offline s)\<lparr>isConnected := False\<rparr>"
  have st: "sys_step p s [EvOffline] ?s1" using assms Online by (intro offline_step) auto
  have "client ?s1 = Some (c\<lparr>link := Offline\<rparr>)" using assms(1) by (simp add: set_link_def)
  then have "\<exists>s'. sys_reach p ?s1 s' \<and> isConnected s' \<and> reconnectAttempts s' = 0"
    by (rule connected_from_offline) (use assms(5) in \<open>simp_all add: set_link_def\<close>)
  then obtain s' where "sys_reach p ?s1 s'" "isConnected s'" "reconnectAttempts s' = 0"
    by blast
  with st show ?thesis by (blast intro: sys_reach_step)
next
  case Offline
  with assms show ?thesis by (blast intro: connected_from_offline)
next
  case Connecting
  with assms connack_step [of s c p] show ?thesis
    by (blast intro: sys_reach_one)
next
  case Reconnecting
  with assms connack_step [of s c p] show ?thesis
    by (blast intro: sys_reach_one)
qed (use assms in simp_all)

theorem reconnection_possible_witness:
  "\<exists>s'. sys_reach (\<lambda>_. None) (set_link Offline started0) s' \<and> isConnected s' \<and> reconnectAttempts s' = 0"
proof -
  have c: "client (set_link Offline started0) = Some (client0\<lparr>link := Offline\<rparr>)"
    by (simp add: set_link_def started0_def)
  show ?thesis
  proof (rule reconnection_possible [OF c])
    show "0 < reconnectPeriod (options (client0\<lparr>link := Offline\<rparr>))" by (simp add: period0)
    show "reconnectAttempts (set_link Offline started0) < maxReconnectAttempts (set_link Offline started0)"
      by (simp add: set_link_def started0_def MQTTService_new_def)
  qed simp_all
qed

section \<open>Payloads across the broker\<close>

text \<open>
  C34. The loopback round trip of the spec: a structured payload (an object, an array or
  \<open>null\<close>) that \<open>JSON.parse\<close> can produce, published with \<open>publish\<close>, is received by the
  \<open>message\<close> handler as the same value and routed with it.
\<close>

theorem loopback_roundtrip:
  assumes "json_wf v" and "js_typeof_object v"
  shows "\<exists>str. serialize_message v = Inr str \<and>
           on_message json_parse t str s = (s, [EvMessage t v, EvRouted (routeMessage t v)])"
proof -
  have "json_parse (json_text v) = Some v"
    using json_parse_text_json_text [OF assms(1)] by (simp add: json_parse_def)
  then show ?thesis
    using serialize_message_object [OF assms(2)] by (simp add: on_message_def decode_payload_def)
qed

theorem loopback_roundtrip_witness:
  "json_wf (JObject [(''cmd'', JString ''reboot''), (''args'', JArray [JNumber 5, JBool True, JNull])]) \<and>
   js_typeof_object (JObject [(''cmd'', JString ''reboot''), (''args'', JArray [JNumber 5, JBool True, JNull])]) \<and>
   (\<exists>str. serialize_message (JObject [(''cmd'', JString ''reboot''), (''args'', JArray [JNumber 5, JBool True, JNull])]) = Inr str \<and>
      on_message json_parse ''mdm/devices/d1/status'' str MQTTService_new =
        (MQTTService_new, [EvMessage ''mdm/devices/d1/status'' (JObject [(''cmd'', JString ''reboot''), (''args'', JArray [JNumber 5, JBool True, JNull])]),
                           EvRouted (routeMessage ''mdm/devices/d1/status'' (JObject [(''cmd'', JString ''reboot''), (''args'', JArray [JNumber 5, JBool True, JNull])]))]))"
  using loopback_roundtrip [of "JObject [(''cmd'', JString ''reboot''), (''args'', JArray [JNumber 5, JBool True, JNull])]"
      "''mdm/devices/d1/status''" MQTTService_new]
  by (simp add: js_typeof_object_def)

text \<open>
  C36. Every body that \<open>express.json\<close> accepts is an object or an array (an empty body
  is \<open>{}\<close>): \<open>req.body\<close> is never \<open>null\<close> or a primitive, so the destructuring
  \<open>const { ... } = req.body\<close> of the handlers cannot throw on a JSON request.
\<close>

theorem json_body_is_container:
  assumes "express_body json_parse_or_error (JsonBody str) = Inr v"
  shows "(\<exists>kvs. v = JObject kvs) \<or> (\<exists>vs. v = JArray vs)"
proof (cases "str = [] \<or> json_body_limit < length str")
  case True
  with assms show ?thesis by (auto simp: express_body_def)
next
  case False
  then obtain c cs where t: "dropWhile is_json_ws str = c # cs" and c: "c = CHR ''{'' \<or> c = CHR ''[''"
    and p: "json_parse_or_error str = Inr v"
    using assms by (auto simp: express_body_def Let_def neq_Nil_conv split: if_splits sum.splits)
  from p obtain r where pv: "parse_value (Suc (2 * length str)) str = Parsed v r"
    by (auto simp: json_parse_or_error_def json_parse_text_def split: parsed.splits if_splits)
  have "skip_ws str = c # cs" by (simp add: skip_ws_def t)
  from parse_value_container [OF this c pv] show ?thesis .
qed

theorem json_body_is_container_witness:
  "express_body json_parse_or_error (JsonBody '' [1, 2]'') = Inr (JArray [JNumber 1, JNumber 2]) \<and>
   ((\<exists>kvs. JArray [JNumber 1, JNumber 2] = JObject kvs) \<or> (\<exists>vs. JArray [JNumber 1, JNumber 2] = JArray vs))"
proof -
  have "json_parse_or_error '' [1, 2]'' = Inr (JArray [JNumber 1, JNumber 2])"
    by code_simp
  then have b: "express_body json_parse_or_error (JsonBody '' [1, 2]'') = Inr (JArray [JNumber 1, JNumber 2])"
    by (simp add: express_body_def json_body_limit_def is_json_ws_def)
  from json_body_is_container [OF b] b show ?thesis by simp
qed



section \<open>Routing and the process\<close>


text \<open>
  C40. Start-up and shutdown: when \<open>mqtt.connect\<close> throws, \<open>startServer\<close> exits with 1;
  otherwise the process runs with a client that is connecting, and \<open>SIGINT\<close> or
  \<open>SIGTERM\<close> ends that client, clears \<open>isConnected\<close> and exits with 0.
\<close>

theorem server_lifecycle:
  "startServer env rnd (Some e) = Exited 1 \<and>
   (\<exists>s c. startServer env rnd None = Running s \<and> client s = Some c \<and> link c = Connecting \<and>
      (\<forall>sig. \<exists>s'. on_signal sig (Running s) = (Exited 0, Some s') \<and> \<not> isConnected s' \<and>
                   map_option link (client s') = Some Ended))"
  by (simp add: startServer_def connect_def disconnect_def client_end_def)

end
